theory Spec2Isabelle
  imports Complex_Main
begin

section \<open>Python values and exceptions\<close>

text \<open>
  The handlers of \<^verbatim>\<open>archive.py\<close> are Python functions over dynamically typed
  values. Exceptions are values of the type \<open>exn\<close>; a function that may raise returns
  \<open>exn + 'a\<close>, with \<open>Inl\<close> for the exception.
\<close>

datatype exn =
    ValueError
  | KeyError
  | TypeError
  | IndexError
  | AttributeError
  | MissingArgumentError
  | IntegrityError
  | CollaboratorError

text \<open>
  \<^verbatim>\<open>MissingArgumentError\<close> is what \<^verbatim>\<open>get_query_argument\<close> raises for an argument
  that has no default and is not in the request, \<^verbatim>\<open>IntegrityError\<close> is the
  exception of the store's uniqueness constraints, and \<open>CollaboratorError\<close> stands for
  any other exception that a call outside this file raises.

  A Python float is a finite number, one of the two zeros, an infinity or not a number:
  \<open>Fin 0\<close> is the float \<^verbatim>\<open>0.0\<close> and \<open>Neg_zero\<close> is \<^verbatim>\<open>-0.0\<close>, which equals it
  in every comparison and differs from it by its sign bit. The columns of the
  photometry, which the handlers only copy, are reals.
\<close>

datatype pyfloat =
    Fin real
  | Neg_zero
  | Pos_inf
  | Neg_inf
  | NaN

text \<open>
  The value of a finite float, and the comparisons of a float with a finite constant:
  \<open>float_lt x c\<close> is \<^verbatim>\<open>x < c\<close>, \<open>float_le x c\<close> is \<^verbatim>\<open>x <= c\<close>, \<open>float_gt x c\<close> is
  \<^verbatim>\<open>x > c\<close> and \<open>float_ge x c\<close> is \<^verbatim>\<open>x >= c\<close>. Every comparison with
  \<^verbatim>\<open>nan\<close> is false.
\<close>

fun fval :: "pyfloat \<Rightarrow> real" where
  "fval (Fin r) = r"
| "fval Neg_zero = 0"
| "fval Pos_inf = 0"
| "fval Neg_inf = 0"
| "fval NaN = 0"

fun float_lt :: "pyfloat \<Rightarrow> real \<Rightarrow> bool" where
  "float_lt (Fin r) c = (r < c)"
| "float_lt Neg_zero c = (0 < c)"
| "float_lt Pos_inf c = False"
| "float_lt Neg_inf c = True"
| "float_lt NaN c = False"

fun float_le :: "pyfloat \<Rightarrow> real \<Rightarrow> bool" where
  "float_le (Fin r) c = (r \<le> c)"
| "float_le Neg_zero c = (0 \<le> c)"
| "float_le Pos_inf c = False"
| "float_le Neg_inf c = True"
| "float_le NaN c = False"

fun float_gt :: "pyfloat \<Rightarrow> real \<Rightarrow> bool" where
  "float_gt (Fin r) c = (r > c)"
| "float_gt Neg_zero c = (0 > c)"
| "float_gt Pos_inf c = True"
| "float_gt Neg_inf c = False"
| "float_gt NaN c = False"

fun float_ge :: "pyfloat \<Rightarrow> real \<Rightarrow> bool" where
  "float_ge (Fin r) c = (r \<ge> c)"
| "float_ge Neg_zero c = (0 \<ge> c)"
| "float_ge Pos_inf c = True"
| "float_ge Neg_inf c = False"
| "float_ge NaN c = False"

text \<open>
  A value decoded from JSON, or read from the query string of a request. A JSON number
  is held as the float that \<^verbatim>\<open>float\<close> makes of it; the decoder of Python also reads
  \<^verbatim>\<open>NaN\<close> and \<^verbatim>\<open>Infinity\<close>.
\<close>

datatype json =
    JNull
  | JBool bool
  | JNum pyfloat
  | JStr string
  | JArr "json list"
  | JObj "(string \<times> json) list"

text \<open>
  \<open>truthy v\<close> is \<^verbatim>\<open>bool(v)\<close>; \<open>py_all\<close> and \<open>py_any\<close> are \<^verbatim>\<open>all\<close> and
  \<^verbatim>\<open>any\<close> on a tuple.
\<close>

fun truthy :: "json \<Rightarrow> bool" where
  "truthy JNull = False"
| "truthy (JBool b) = b"
| "truthy (JNum x) = (x \<noteq> Fin 0 \<and> x \<noteq> Neg_zero)"
| "truthy (JStr s) = (s \<noteq> [])"
| "truthy (JArr l) = (l \<noteq> [])"
| "truthy (JObj l) = (l \<noteq> [])"

definition py_all :: "json list \<Rightarrow> bool" where
  "py_all vs = list_all truthy vs"

definition py_any :: "json list \<Rightarrow> bool" where
  "py_any vs = list_ex truthy vs"

text \<open>
  \<^verbatim>\<open>float(v)\<close>. A string is parsed, and \<^verbatim>\<open>ValueError\<close> is raised when it is not
  the text of a float; the parser is the parameter \<open>float_of_str\<close>, which may answer
  with any float (\<^verbatim>\<open>float("nan")\<close> is not a number, \<^verbatim>\<open>float("-0")\<close> is the
  negative zero). A list, a dictionary and \<^verbatim>\<open>None\<close> raise \<^verbatim>\<open>TypeError\<close>.
\<close>

fun py_float :: "(string \<Rightarrow> pyfloat option) \<Rightarrow> json \<Rightarrow> exn + pyfloat" where
  "py_float float_of_str (JStr s) =
     (case float_of_str s of None \<Rightarrow> Inl ValueError | Some x \<Rightarrow> Inr x)"
| "py_float float_of_str (JNum x) = Inr x"
| "py_float float_of_str (JBool b) = Inr (if b then Fin 1 else Fin 0)"
| "py_float float_of_str JNull = Inl TypeError"
| "py_float float_of_str (JArr l) = Inl TypeError"
| "py_float float_of_str (JObj l) = Inl TypeError"

text \<open>
  \<^verbatim>\<open>self.get_query_argument(name, None)\<close> is a string or \<^verbatim>\<open>None\<close>.
\<close>

definition query_argument :: "string option \<Rightarrow> json" where
  "query_argument a = (case a of None \<Rightarrow> JNull | Some s \<Rightarrow> JStr s)"

section \<open>Strings and dictionaries\<close>

text \<open>
  A Python \<^verbatim>\<open>str\<close> is a \<open>string\<close>. \<open>startswith s p\<close> is \<^verbatim>\<open>s.startswith(p)\<close>,
  \<open>contains sub s\<close> is \<^verbatim>\<open>sub in s\<close>, and \<open>lower s\<close> is \<^verbatim>\<open>s.lower()\<close> on
  the letters A to Z; every other character is left as it is (no character outside
  ASCII has \<^verbatim>\<open>z\<close>, \<^verbatim>\<open>t\<close> or \<^verbatim>\<open>f\<close> as its lower case, the only letters the
  handlers look for after \<^verbatim>\<open>lower()\<close>).
\<close>

fun startswith :: "string \<Rightarrow> string \<Rightarrow> bool" where
  "startswith s [] = True"
| "startswith [] (p # ps) = False"
| "startswith (c # cs) (p # ps) = (c = p \<and> startswith cs ps)"

fun contains :: "string \<Rightarrow> string \<Rightarrow> bool" where
  "contains sub [] = (sub = [])"
| "contains sub (c # cs) = (startswith (c # cs) sub \<or> contains sub cs)"

definition lower_char :: "char \<Rightarrow> char" where
  "lower_char c =
     (case map_of (zip ''ABCDEFGHIJKLMNOPQRSTUVWXYZ'' ''abcdefghijklmnopqrstuvwxyz'') c of
        None \<Rightarrow> c
      | Some l \<Rightarrow> l)"

definition lower :: "string \<Rightarrow> string" where
  "lower s = map lower_char s"

text \<open>
  A dictionary whose keys matter in their order of insertion is an association list;
  \<open>dict_get d k dflt\<close> is \<^verbatim>\<open>d.get(k, dflt)\<close>.
\<close>

definition dict_get :: "('k \<times> 'v) list \<Rightarrow> 'k \<Rightarrow> 'v \<Rightarrow> 'v" where
  "dict_get d k dflt = (case map_of d k of None \<Rightarrow> dflt | Some v \<Rightarrow> v)"

section \<open>Names from coordinates: \<^verbatim>\<open>radec_to_iau_name\<close>\<close>

text \<open>
  \<open>digits n\<close> is the decimal numeral of \<open>n\<close>, \<open>zfill w s\<close> pads \<open>s\<close> with zeros on
  the left up to the width \<open>w\<close>.
\<close>

definition digit_char :: "nat \<Rightarrow> char" where
  "digit_char d = ''0123456789'' ! d"

fun digits :: "nat \<Rightarrow> string" where
  "digits n = (if n < 10 then [digit_char n] else digits (n div 10) @ [digit_char (n mod 10)])"

declare digits.simps [simp del]

definition zfill :: "nat \<Rightarrow> string \<Rightarrow> string" where
  "zfill w s = replicate (w - length s) CHR ''0'' @ s"

text \<open>
  Python formats a float in the presentation type \<^verbatim>\<open>f\<close> from its exact value,
  rounded to the precision with ties to the even digit.
\<close>

definition round_half_even :: "real \<Rightarrow> int" where
  "round_half_even x =
     (let f = \<lfloor>x\<rfloor>; d = x - of_int f
      in if d < 1 / 2 then f else if d > 1 / 2 then f + 1 else if even f then f else f + 1)"

text \<open>
  \<open>format_f plus_flag width prec negative x\<close> is the format specification
  \<^verbatim>\<open>[+]0<width>.<prec>f\<close> applied to a float of absolute value \<open>\<bar>x\<bar>\<close> whose sign
  bit is \<open>negative\<close>: the sign (always with \<^verbatim>\<open>+\<close>, otherwise only a minus), then the
  digits padded with zeros after the sign up to the width. The sign bit is passed apart
  from the value because a float zero has one: Python prints \<^verbatim>\<open>-0.0\<close> with its minus
  sign.
\<close>

definition format_f :: "bool \<Rightarrow> nat \<Rightarrow> nat \<Rightarrow> bool \<Rightarrow> real \<Rightarrow> string" where
  "format_f plus_flag width prec negative x =
     (let n = nat (round_half_even (\<bar>x\<bar> * 10 ^ prec));
          body = digits (n div 10 ^ prec) @
                 (if prec = 0 then [] else CHR ''.'' # zfill prec (digits (n mod 10 ^ prec)));
          sign = (if negative then ''-'' else if plus_flag then ''+'' else [])
      in sign @ zfill (width - length sign) body)"

text \<open>
  The arithmetic of floats gives, for each product, quotient and difference, the float
  nearest to the exact result. That rounding is the parameter \<open>rnd\<close> of the model. What
  the proofs use of it is \<open>rounding rnd\<close>: it is monotone, and it leaves the integers up
  to \<open>2 ^ 53\<close> as they are, as the rounding to the nearest float of 53 binary digits
  does. \<^verbatim>\<open>np.floor\<close>, \<^verbatim>\<open>np.abs\<close> and \<^verbatim>\<open>np.sign\<close> are exact.
\<close>

definition rounding :: "(real \<Rightarrow> real) \<Rightarrow> bool" where
  "rounding rnd =
     ((\<forall>x y. x \<le> y \<longrightarrow> rnd x \<le> rnd y) \<and>
      (\<forall>k::int. \<bar>k\<bar> \<le> 2 ^ 53 \<longrightarrow> rnd (of_int k) = of_int k))"

text \<open>
  \<^verbatim>\<open>radec_to_iau_name(ra, dec, prefix)\<close>. The two range checks raise
  \<^verbatim>\<open>ValueError\<close>; a coordinate that is infinite or not a number fails them.
  \<^verbatim>\<open>hms = f"{ra_h:02.0f}{ra_m:02.0f}{ra_s:05.2f}"\<close> and
  \<^verbatim>\<open>dms = f"{dec_d:+03.0f}{dec_m:02.0f}{dec_s:04.1f}"\<close>.

  Two of the six formatted floats can have their sign bit set. \<^verbatim>\<open>ra_h\<close> is the floor
  of \<^verbatim>\<open>ra * 12.0 / 180.0\<close>, which is \<^verbatim>\<open>-0.0\<close> when \<^verbatim>\<open>ra\<close> is \<^verbatim>\<open>-0.0\<close>, a value
  that passes the range check. \<^verbatim>\<open>dec_d = np.floor(abs(dec)) * np.sign(dec)\<close> is the
  product of a float that is not negative and of the sign of \<^verbatim>\<open>dec\<close>, which is
  \<^verbatim>\<open>-1.0\<close> for a negative \<^verbatim>\<open>dec\<close> and \<^verbatim>\<open>0.0\<close> for both zeros: its sign bit is set
  exactly when \<^verbatim>\<open>dec < 0\<close>, also when the product is zero. The other four are
  differences of a float and its floor, or floors and absolute values of such, and
  are not negative; the difference of two equal floats is \<^verbatim>\<open>0.0\<close>.
\<close>

definition radec_to_iau_name ::
  "(real \<Rightarrow> real) \<Rightarrow> pyfloat \<Rightarrow> pyfloat \<Rightarrow> string \<Rightarrow> exn + string" where
  "radec_to_iau_name rnd ra dec prefix =
     (if \<not> (float_ge ra 0 \<and> float_lt ra 360) then Inl ValueError
      else if \<not> (float_ge dec (- 90) \<and> float_le dec 90) then Inl ValueError
      else
        let hours = rnd (rnd (fval ra * 12) / 180);
            ra_h = of_int \<lfloor>hours\<rfloor>;
            ra_m = of_int \<lfloor>rnd (rnd (hours - ra_h) * 60)\<rfloor>;
            ra_s = rnd (rnd (rnd (rnd (hours - ra_h) * 60) - ra_m) * 60);
            dec_d = rnd (of_int \<lfloor>\<bar>fval dec\<bar>\<rfloor> * sgn (fval dec));
            dec_m = of_int \<lfloor>rnd (\<bar>rnd (fval dec - dec_d)\<bar> * 60)\<rfloor>;
            dec_s = rnd (\<bar>rnd (rnd (\<bar>rnd (fval dec - dec_d)\<bar> * 60) - dec_m)\<bar> * 60);
            hms = format_f False 2 0 (ra = Neg_zero) ra_h @ format_f False 2 0 False ra_m @
                  format_f False 5 2 False ra_s;
            dms = format_f True 3 0 (fval dec < 0) dec_d @ format_f False 2 0 False dec_m @
                  format_f False 4 1 False dec_s
        in Inr (prefix @ hms @ dms))"

section \<open>Photometry: \<^verbatim>\<open>make_photometry\<close>\<close>

text \<open>
  One element of \<^verbatim>\<open>light_curve["data"]\<close>: an epoch of a ZTF light curve, with the
  columns the handlers read.
\<close>

record epoch =
  hjd :: real
  mag :: real
  magerr :: real
  catflags :: int
  programid :: int
  ep_ra :: real
  ep_dec :: real

text \<open>
  A light curve as the aggregation pipeline projects it. \<^verbatim>\<open>light_curve.get("ra")\<close>
  may be \<^verbatim>\<open>None\<close>. The fields \<^verbatim>\<open>filter\<close> and \<^verbatim>\<open>data\<close> are named \<open>lc_filter\<close>
  and \<open>lc_data\<close> here, and an epoch's \<^verbatim>\<open>ra\<close> and \<^verbatim>\<open>dec\<close> are \<open>ep_ra\<close> and \<open>ep_dec\<close>.
\<close>

record light_curve =
  lc_id :: int
  lc_ra :: "real option"
  lc_dec :: "real option"
  lc_filter :: int
  lc_data :: "epoch list"

text \<open>A row of the data frame that \<^verbatim>\<open>make_photometry\<close> returns.\<close>

record phot_row = epoch +
  fid :: int
  ztf_filter :: string
  magsys :: string
  zp :: real
  mjd :: real

text \<open>\<^verbatim>\<open>ztf_filters = {1: "ztfg", 2: "ztfr", 3: "ztfi"}\<close>\<close>

definition ztf_filters :: "int \<rightharpoonup> string" where
  "ztf_filters = [1 \<mapsto> ''ztfg'', 2 \<mapsto> ''ztfr'', 3 \<mapsto> ''ztfi'']"

text \<open>
  The loop that fills \<^verbatim>\<open>dfs\<close>: one frame per light curve whose \<^verbatim>\<open>data\<close> is not
  empty, every row of it tagged with the light curve's filter code (column \<^verbatim>\<open>fid\<close>).
\<close>

fun make_dfs :: "light_curve list \<Rightarrow> (epoch \<times> int) list list" where
  "make_dfs [] = []"
| "make_dfs (lc # lcs) =
     (if length (lc_data lc) \<noteq> 0
      then map (\<lambda>e. (e, lc_filter lc)) (lc_data lc) # make_dfs lcs
      else make_dfs lcs)"

text \<open>
  \<^verbatim>\<open>pd.concat(dfs, ignore_index=True, sort=False)\<close> raises \<^verbatim>\<open>ValueError\<close>
  ("No objects to concatenate") on an empty list.
\<close>

definition pd_concat :: "'a list list \<Rightarrow> exn + 'a list" where
  "pd_concat dfs = (if dfs = [] then Inl ValueError else Inr (concat dfs))"

text \<open>
  The column assignments, row by row. \<^verbatim>\<open>ztf_filters[x]\<close> raises \<^verbatim>\<open>KeyError\<close> for
  a filter code outside the table. \<open>f32\<close> is \<^verbatim>\<open>np.float32\<close>, the narrowing to
  single precision, a parameter of the model; \<^verbatim>\<open>np.float64\<close> is the identity on a
  float.
\<close>

definition make_row :: "(real \<Rightarrow> real) \<Rightarrow> epoch \<times> int \<Rightarrow> exn + phot_row" where
  "make_row f32 p =
     (case p of (e, x) \<Rightarrow>
        (case ztf_filters x of
           None \<Rightarrow> Inl KeyError
         | Some name \<Rightarrow>
             Inr \<lparr> hjd = hjd e, mag = f32 (mag e), magerr = f32 (magerr e),
                   catflags = catflags e, programid = programid e,
                   ep_ra = ep_ra e, ep_dec = ep_dec e,
                   fid = x, ztf_filter = name, magsys = ''ab'', zp = 239 / 10,
                   mjd = hjd e - 24000005 / 10 \<rparr>))"

text \<open>\<^verbatim>\<open>Series.apply\<close>: the first row that raises ends the whole call.\<close>

fun apply_rows :: "('a \<Rightarrow> exn + 'b) \<Rightarrow> 'a list \<Rightarrow> exn + 'b list" where
  "apply_rows f [] = Inr []"
| "apply_rows f (x # xs) =
     (case f x of
        Inl e \<Rightarrow> Inl e
      | Inr y \<Rightarrow> (case apply_rows f xs of Inl e \<Rightarrow> Inl e | Inr ys \<Rightarrow> Inr (y # ys)))"

definition make_photometry ::
  "(real \<Rightarrow> real) \<Rightarrow> light_curve list \<Rightarrow> bool \<Rightarrow> exn + phot_row list" where
  "make_photometry f32 light_curves drop_flagged =
     (case pd_concat (make_dfs light_curves) of
        Inl e \<Rightarrow> Inl e
      | Inr df \<Rightarrow>
          (case apply_rows (make_row f32) df of
             Inl e \<Rightarrow> Inl e
           | Inr df_light_curve \<Rightarrow>
               Inr (if drop_flagged
                    then filter (\<lambda>r. catflags r = 0) df_light_curve
                    else df_light_curve)))"

section \<open>Streams, program ids and stream ids\<close>

text \<open>
  A row of the table of streams: \<^verbatim>\<open>stream.id\<close>, \<^verbatim>\<open>stream.name\<close> and
  \<^verbatim>\<open>stream.altdata\<close>, a dictionary or \<^verbatim>\<open>None\<close>, of which the handlers read the
  key \<^verbatim>\<open>"selector"\<close>, a list of program ids.
\<close>

record stream =
  stream_id :: int
  stream_name :: string
  altdata :: "(string \<times> int list) list option"

text \<open>
  The loop over \<^verbatim>\<open>self.associated_user_object.streams\<close>, the same in
  \<^verbatim>\<open>ArchiveHandler.get\<close> (lines 606 to 614) and \<^verbatim>\<open>ArchiveHandler.post\<close> (lines 803
  to 809):
  \<^verbatim>\<open>if "ztf" in stream.name.lower():
      program_id_selector.update(set(stream.altdata.get("selector", [])))\<close>
  On a stream whose \<^verbatim>\<open>altdata\<close> is \<^verbatim>\<open>None\<close> the call of \<^verbatim>\<open>get\<close> raises
  \<^verbatim>\<open>AttributeError\<close>. The set starts as \<^verbatim>\<open>{1}\<close>.
\<close>

fun update_program_ids :: "int set \<Rightarrow> stream list \<Rightarrow> exn + int set" where
  "update_program_ids program_id_selector [] = Inr program_id_selector"
| "update_program_ids program_id_selector (s # ss) =
     (if contains ''ztf'' (lower (stream_name s))
      then (case altdata s of
              None \<Rightarrow> Inl AttributeError
            | Some a \<Rightarrow>
                update_program_ids (program_id_selector \<union> set (dict_get a ''selector'' [])) ss)
      else update_program_ids program_id_selector ss)"

definition program_id_selector :: "stream list \<Rightarrow> exn + int set" where
  "program_id_selector streams = update_program_ids {1} streams"

text \<open>
  The loop of \<^verbatim>\<open>ArchiveHandler.post\<close> (lines 940 to 948) that fills
  \<^verbatim>\<open>ztf_program_id_to_stream_id\<close>: three tests of the stream's name, one after
  the other, each assigning to the dictionary.
\<close>

fun update_stream_ids :: "(int \<rightharpoonup> int) \<Rightarrow> stream list \<Rightarrow> (int \<rightharpoonup> int)" where
  "update_stream_ids m [] = m"
| "update_stream_ids m (s # ss) =
     (let m1 = (if stream_name s = ''ZTF Public'' then m(1 \<mapsto> stream_id s) else m);
          m2 = (if stream_name s = ''ZTF Public+Partnership'' then m1(2 \<mapsto> stream_id s) else m1);
          m3 = (if stream_name s = ''ZTF Public+Partnership+Caltech''
                then m2(0 \<mapsto> stream_id s, 3 \<mapsto> stream_id s) else m2)
      in update_stream_ids m3 ss)"

definition ztf_program_id_to_stream_id :: "stream list \<Rightarrow> (int \<rightharpoonup> int)" where
  "ztf_program_id_to_stream_id streams = update_stream_ids Map.empty streams"

text \<open>
  \<^verbatim>\<open>df_photometry["programid"].apply(lambda x: ztf_program_id_to_stream_id[x])\<close>:
  the lookup raises \<^verbatim>\<open>KeyError\<close> for a program id that is not a key.
\<close>

definition stream_ids_column :: "(int \<rightharpoonup> int) \<Rightarrow> phot_row list \<Rightarrow> exn + int list" where
  "stream_ids_column m df =
     apply_rows (\<lambda>r. case m (programid r) of None \<Rightarrow> Inl KeyError | Some i \<Rightarrow> Inr i) df"

section \<open>Responses, the catalog service and the trace of a request\<close>

text \<open>
  The arguments of \<^verbatim>\<open>self.error\<close>, one constructor per message of the file:
  \<^item> \<open>Gloria_connection_unavailable\<close>: "Gloria connection unavailable."
  \<^item> \<open>No_catalogs_available\<close>: "No catalogs available to run cross-match against."
  \<^item> \<open>Missing_required_parameter n\<close>: "Missing required parameter: " followed by \<open>n\<close>
  \<^item> \<open>Invalid_radius_units\<close>: "Invalid radius_units value. Must be one of either 'deg',
    'arcmin', or 'arcsec'."
  \<^item> \<open>Invalid_non_float_value\<close>: "Invalid (non-float) value provided."
  \<^item> \<open>Invalid_RA_value\<close>: "Invalid R.A. value provided: must be 0 <= R.A. [deg] < 360"
  \<^item> \<open>Invalid_Decl_value\<close>: "Invalid Decl. value provided: must be -90 <= Decl. [deg] <= 90"
  \<^item> \<open>Radius_must_be_le_1_deg\<close>: "Radius must be <= 1.0 deg"
  \<^item> \<open>Catalog_not_available c\<close>: "Catalog \<open>c\<close> not available"
  \<^item> \<open>Cannot_find_source i\<close>: "Cannot find source with id \<open>i\<close>."
  \<^item> \<open>Cannot_find_groups ids\<close>: "Cannot find one or more groups with IDs: \<open>ids\<close>."
  \<^item> \<open>No_SCoPe_features_available\<close>: "No SCoPe features available."
  \<^item> \<open>Annotation_already_posted\<close>: "Annotation already posted."
  \<^item> \<open>Remote_message m\<close>: \<^verbatim>\<open>response.get("message")\<close>, the service's own message
  \<^item> \<open>Parameter_group_ids_required\<close>: "Parameter group_ids is required if obj_id is not set"
  \<^item> \<open>Bad_required_parameter_light_curve_ids\<close>: "Bad required parameter: light_curve_ids"
  \<^item> \<open>No_data_found\<close>: "No data found for requested light_curve_ids"
  \<^item> \<open>ZTF_instrument_not_found\<close>: "ZTF instrument not found in the system"
  \<^item> \<open>Failed_to_get_mapping\<close>: "Failed to get programid to stream_id mapping"
\<close>

datatype message =
    Gloria_connection_unavailable
  | No_catalogs_available
  | Missing_required_parameter string
  | Invalid_radius_units
  | Invalid_non_float_value
  | Invalid_RA_value
  | Invalid_Decl_value
  | Radius_must_be_le_1_deg
  | Catalog_not_available json
  | Cannot_find_source json
  | Cannot_find_groups "int list"
  | No_SCoPe_features_available
  | Annotation_already_posted
  | Remote_message "string option"
  | Parameter_group_ids_required
  | Bad_required_parameter_light_curve_ids
  | No_data_found
  | ZTF_instrument_not_found
  | Failed_to_get_mapping

text \<open>
  A source of a cone search, with its \<^verbatim>\<open>_id\<close> and the two
  \<^verbatim>\<open>coordinates.radec_geojson.coordinates\<close>, and what \<^verbatim>\<open>CrossMatchHandler.get\<close>
  makes of it: the \<^verbatim>\<open>_id\<close> as a string, \<^verbatim>\<open>ra\<close> the first coordinate plus 180,
  \<^verbatim>\<open>dec\<close> the second.
\<close>

record source =
  src_id :: int
  geo_lon :: real
  geo_lat :: real

record matched_source =
  ms_id :: string
  ms_ra :: real
  ms_dec :: real

definition str_int :: "int \<Rightarrow> string" where
  "str_int i = (if i < 0 then CHR ''-'' # digits (nat (- i)) else digits (nat i))"

definition normalize_source :: "source \<Rightarrow> matched_source" where
  "normalize_source s =
     \<lparr> ms_id = str_int (src_id s), ms_ra = geo_lon s + 180, ms_dec = geo_lat s \<rparr>"

text \<open>The \<^verbatim>\<open>data\<close> of \<^verbatim>\<open>self.success\<close>.\<close>

datatype payload =
    No_data
  | Empty_list
  | Matched_sources "(string \<times> matched_source list) list"
  | Light_curves "light_curve list"
  | Obj_id string

text \<open>
  What a handler does with its request: it answers with \<^verbatim>\<open>self.success\<close> or with
  \<^verbatim>\<open>self.error\<close> (a message and a status, 400 unless given), it lets an exception
  escape, or it returns \<^verbatim>\<open>None\<close> without having answered.
\<close>

datatype response =
    Success payload
  | Error message nat
  | Raised exn
  | Returned_None

text \<open>
  The queries that the handlers send to the catalog service:
  \<^item> \<open>Info\<close>: \<^verbatim>\<open>{"query_type": "info", "query": {"command": "catalog_names"}}\<close>;
  \<^item> \<open>Near radius units ra dec catalogs ids_only\<close>: the cone search, with the
    projection \<^verbatim>\<open>{"_id": 1}\<close> when \<open>ids_only\<close> and the empty projection otherwise;
  \<^item> \<open>Find catalog ident\<close>: the features of one light curve;
  \<^item> \<open>Aggregate catalog ids program_ids\<close>: the light curves of the given ids, their
    \<^verbatim>\<open>data\<close> filtered by the service to the epochs whose \<^verbatim>\<open>programid\<close> is in
    \<open>program_ids\<close>.
\<close>

datatype query =
    Info
  | Near pyfloat json pyfloat pyfloat "string list" bool
  | Find string int
  | Aggregate string "int list" "int set"

text \<open>
  A feature value is a number or \<^verbatim>\<open>None\<close>; \<open>py_int\<close> is \<^verbatim>\<open>int(value)\<close>, which
  truncates towards zero.
\<close>

datatype number = Integer int | Floating real

fun py_int :: "number \<Rightarrow> int" where
  "py_int (Integer i) = i"
| "py_int (Floating x) = (if 0 \<le> x then \<lfloor>x\<rfloor> else \<lceil>x\<rceil>)"

text \<open>
  The answer of the service to a query: \<^verbatim>\<open>status\<close> and \<^verbatim>\<open>message\<close>, which may be
  absent, and \<^verbatim>\<open>data\<close> read in the shape that the query asks for: the catalog
  names, the sources found per catalog (the lists under \<^verbatim>\<open>query_coords\<close>), the
  feature dictionaries, or the light curves. The answers are taken to have the shape of
  their query. \<^verbatim>\<open>gloria\<close> is \<^verbatim>\<open>None\<close> when the connection failed at start-up.
\<close>

record reply =
  r_status :: "string option"
  r_message :: "string option"
  r_names :: "string list option"
  r_sources :: "(string \<times> source list) list"
  r_features :: "(string \<times> number option) list list"
  r_light_curves :: "light_curve list"

type_synonym gloria = "query \<Rightarrow> reply"

definition succeeded :: "reply \<Rightarrow> bool" where
  "succeeded response = ((case r_status response of None \<Rightarrow> ''error'' | Some s \<Rightarrow> s) = ''success'')"

text \<open>
  A stored annotation, and the steps of the ingestion pipeline that call code outside
  this file.
\<close>

record annotation =
  an_data :: "(string \<times> number) list"
  an_obj_id :: json
  an_origin :: string
  an_author :: int
  an_groups :: "int list"

record post_source_data =
  ps_id :: string
  ps_ra :: pyfloat
  ps_dec :: pyfloat
  ps_group_ids :: "int list option"
  ps_origin :: string

record photometry =
  ph_obj_id :: string
  ph_instrument_id :: int
  ph_rows :: "phot_row list"
  ph_stream_ids :: "int list"

datatype step =
    Log_source_exists string
  | Post_source post_source_data
  | Add_external_photometry photometry

text \<open>
  The trace of a request: the calls it makes outside the handler, in order.
\<close>

datatype event =
    Query query
  | Create_token int
  | Delete_token int
  | Step step
  | Commit "annotation list"
  | Push_all

section \<open>The position arguments\<close>

text \<open>
  The four position values \<^verbatim>\<open>(ra, dec, radius, radius_units)\<close> are checked by the
  same block in \<^verbatim>\<open>CrossMatchHandler.get\<close> (lines 210 to 249),
  \<^verbatim>\<open>ScopeFeaturesHandler.post\<close> (lines 373 to 404) and \<^verbatim>\<open>ArchiveHandler.get\<close>
  (lines 626 to 657); only \<^verbatim>\<open>CrossMatchHandler.get\<close> also checks the ranges of
  \<^verbatim>\<open>ra\<close> and \<^verbatim>\<open>dec\<close>, which is the flag \<open>check_ranges\<close> here.

  The four tests that follow \<^verbatim>\<open>if not all(position_tuple) and any(position_tuple)\<close>:
  each returns an error for a value that is \<^verbatim>\<open>None\<close>; when no value is
  \<^verbatim>\<open>None\<close> the block ends without a \<^verbatim>\<open>return\<close>.
\<close>

definition missing_parameter :: "json \<Rightarrow> json \<Rightarrow> json \<Rightarrow> json \<Rightarrow> response option" where
  "missing_parameter ra dec radius radius_units =
     (if ra = JNull then Some (Error (Missing_required_parameter ''ra'') 400)
      else if dec = JNull then Some (Error (Missing_required_parameter ''dec'') 400)
      else if radius = JNull then Some (Error (Missing_required_parameter ''radius'') 400)
      else if radius_units = JNull
      then Some (Error (Missing_required_parameter ''radius_units'') 400)
      else None)"

text \<open>
  The three conversions of the \<^verbatim>\<open>try\<close> block, in order; the first exception ends
  the block.
\<close>

definition floats3 ::
  "(string \<Rightarrow> pyfloat option) \<Rightarrow> json \<Rightarrow> json \<Rightarrow> json \<Rightarrow>
   exn + pyfloat \<times> pyfloat \<times> pyfloat" where
  "floats3 float_of_str ra dec radius =
     (case py_float float_of_str ra of
        Inl e \<Rightarrow> Inl e
      | Inr ra' \<Rightarrow>
          (case py_float float_of_str dec of
             Inl e \<Rightarrow> Inl e
           | Inr dec' \<Rightarrow>
               (case py_float float_of_str radius of
                  Inl e \<Rightarrow> Inl e
                | Inr radius' \<Rightarrow> Inr (ra', dec', radius'))))"

definition radius_exceeds_cap :: "json \<Rightarrow> pyfloat \<Rightarrow> bool" where
  "radius_exceeds_cap radius_units radius =
     ((radius_units = JStr ''deg'' \<and> float_gt radius 1) \<or>
      (radius_units = JStr ''arcmin'' \<and> float_gt radius 60) \<or>
      (radius_units = JStr ''arcsec'' \<and> float_gt radius 3600))"

text \<open>
  The outcome of the block: the handler has answered, or it goes on to the cone search
  with the converted values, or neither of the two \<^verbatim>\<open>if\<close> statements applied to the
  request and the handler falls off its end.
\<close>

datatype position =
    Answered response
  | Search pyfloat pyfloat pyfloat json
  | No_search

definition check_position ::
  "(string \<Rightarrow> pyfloat option) \<Rightarrow> bool \<Rightarrow> json \<Rightarrow> json \<Rightarrow> json \<Rightarrow> json \<Rightarrow> position" where
  "check_position float_of_str check_ranges ra dec radius radius_units =
     (let position_tuple = [ra, dec, radius, radius_units]
      in case (if \<not> py_all position_tuple \<and> py_any position_tuple
               then missing_parameter ra dec radius radius_units else None) of
           Some r \<Rightarrow> Answered r
         | None \<Rightarrow>
             if py_all position_tuple then
               if radius_units \<notin> set [JStr ''deg'', JStr ''arcmin'', JStr ''arcsec'']
               then Answered (Error Invalid_radius_units 400)
               else
                 (case floats3 float_of_str ra dec radius of
                    Inl e \<Rightarrow>
                      if e = ValueError then Answered (Error Invalid_non_float_value 400)
                      else Answered (Raised e)
                  | Inr (ra', dec', radius') \<Rightarrow>
                      if check_ranges \<and> \<not> (float_ge ra' 0 \<and> float_lt ra' 360)
                      then Answered (Error Invalid_RA_value 400)
                      else if check_ranges \<and> \<not> (float_ge dec' (- 90) \<and> float_le dec' 90)
                      then Answered (Error Invalid_Decl_value 400)
                      else if radius_exceeds_cap radius_units radius'
                      then Answered (Error Radius_must_be_le_1_deg 400)
                      else Search ra' dec' radius' radius_units)
             else No_search)"

section \<open>\<^verbatim>\<open>CrossMatchHandler.get\<close>\<close>

text \<open>
  The query arguments of the position handlers; \<open>arg_catalog\<close> is read by
  \<^verbatim>\<open>ArchiveHandler.get\<close> alone, with no default.
\<close>

record position_args =
  arg_ra :: "string option"
  arg_dec :: "string option"
  arg_radius :: "string option"
  arg_radius_units :: "string option"
  arg_catalog :: "string option"

text \<open>
  The catalogs that each handler exposes, of the names that the service lists: all but
  the catalogs of ZTF, PTF, PGIR and WNTR for the cross-match, the catalogs of ZTF
  sources for the light curves, and the catalogs of ZTF source features for the
  features.
\<close>

definition crossmatch_catalogs :: "string list \<Rightarrow> string list" where
  "crossmatch_catalogs available_catalog_names =
     filter (\<lambda>catalog. \<not> startswith catalog ''ZTF'' \<and> \<not> startswith catalog ''PTF'' \<and>
                        \<not> startswith catalog ''PGIR'' \<and> \<not> startswith catalog ''WNTR'')
       available_catalog_names"

definition light_curve_catalogs :: "string list \<Rightarrow> string list" where
  "light_curve_catalogs available_catalog_names =
     filter (\<lambda>catalog. contains ''ZTF_sources'' catalog) available_catalog_names"

definition feature_catalogs :: "string list \<Rightarrow> string list" where
  "feature_catalogs available_catalog_names =
     filter (\<lambda>catalog. contains ''ZTF_source_features'' catalog) available_catalog_names"

text \<open>
  Every handler is a function of the state of \<^verbatim>\<open>gloria\<close>, of what its collaborators
  answer and of the request, and returns its response with the trace of the request.
\<close>

definition CrossMatchHandler_get ::
  "(string \<Rightarrow> pyfloat option) \<Rightarrow> gloria option \<Rightarrow> position_args \<Rightarrow> response \<times> event list" where
  "CrossMatchHandler_get float_of_str gloria args =
     (case gloria of
        None \<Rightarrow> (Error Gloria_connection_unavailable 400, [])
      | Some g \<Rightarrow>
          (case r_names (g Info) of
             None \<Rightarrow> (Raised TypeError, [Query Info])
           | Some available_catalog_names \<Rightarrow>
               let catalogs = crossmatch_catalogs available_catalog_names
               in if length catalogs = 0 then (Error No_catalogs_available 400, [Query Info])
                  else
                    (case check_position float_of_str True
                            (query_argument (arg_ra args)) (query_argument (arg_dec args))
                            (query_argument (arg_radius args))
                            (query_argument (arg_radius_units args)) of
                       Answered r \<Rightarrow> (r, [Query Info])
                     | No_search \<Rightarrow> (Returned_None, [Query Info])
                     | Search ra dec radius radius_units \<Rightarrow>
                         let query = Near radius radius_units ra dec catalogs False;
                             response = g query
                         in if succeeded response
                            then (Success (Matched_sources
                                    (map (\<lambda>(catalog, sources). (catalog, map normalize_source sources))
                                       (r_sources response))),
                                  [Query Info, Query query])
                            else (Error (Remote_message (r_message response)) 400,
                                  [Query Info, Query query]))))"

section \<open>\<^verbatim>\<open>ArchiveHandler.get\<close>\<close>

text \<open>
  \<open>streams\<close> are \<^verbatim>\<open>self.associated_user_object.streams\<close>. The part of the
  handler from the cone search on (lines 659 to 728) is \<open>light_curves_of_cone\<close>: the
  ids of the light curves are read under the catalog's key of the answer, where a
  missing key raises \<^verbatim>\<open>KeyError\<close>.
\<close>

definition light_curves_of_cone ::
  "gloria \<Rightarrow> string \<Rightarrow> int set \<Rightarrow> pyfloat \<Rightarrow> pyfloat \<Rightarrow> pyfloat \<Rightarrow> json \<Rightarrow> response \<times> event list" where
  "light_curves_of_cone g catalog program_ids ra dec radius radius_units =
     (let query = Near radius radius_units ra dec [catalog] True;
          response = g query
      in if succeeded response then
           (case map_of (r_sources response) catalog of
              None \<Rightarrow> (Raised KeyError, [Query Info, Query query])
            | Some items \<Rightarrow>
                let light_curve_ids = map src_id items
                in if length light_curve_ids = 0
                   then (Success (Light_curves []), [Query Info, Query query])
                   else
                     let query2 = Aggregate catalog light_curve_ids program_ids;
                         response2 = g query2
                     in if succeeded response2
                        then (Success (Light_curves (r_light_curves response2)),
                              [Query Info, Query query, Query query2])
                        else (Error (Remote_message (r_message response2)) 400,
                              [Query Info, Query query, Query query2]))
         else (Error (Remote_message (r_message response)) 400, [Query Info, Query query]))"

definition ArchiveHandler_get ::
  "(string \<Rightarrow> pyfloat option) \<Rightarrow> gloria option \<Rightarrow> stream list \<Rightarrow> position_args \<Rightarrow>
   response \<times> event list" where
  "ArchiveHandler_get float_of_str gloria streams args =
     (case gloria of
        None \<Rightarrow> (Error Gloria_connection_unavailable 400, [])
      | Some g \<Rightarrow>
          (case r_names (g Info) of
             None \<Rightarrow> (Raised TypeError, [Query Info])
           | Some available_catalog_names \<Rightarrow>
               (let available_catalogs = light_curve_catalogs available_catalog_names
                in case program_id_selector streams of
                     Inl e \<Rightarrow> (Raised e, [Query Info])
                   | Inr program_ids \<Rightarrow>
                       (case arg_catalog args of
                          None \<Rightarrow> (Raised MissingArgumentError, [Query Info])
                        | Some catalog \<Rightarrow>
                            if catalog \<notin> set available_catalogs
                            then (Error (Catalog_not_available (JStr catalog)) 400, [Query Info])
                            else
                              (case check_position float_of_str False
                                      (query_argument (arg_ra args))
                                      (query_argument (arg_dec args))
                                      (query_argument (arg_radius args))
                                      (query_argument (arg_radius_units args)) of
                                 Answered r \<Rightarrow> (r, [Query Info])
                               | No_search \<Rightarrow> (Returned_None, [Query Info])
                               | Search ra dec radius radius_units \<Rightarrow>
                                   light_curves_of_cone g catalog program_ids
                                     ra dec radius radius_units)))))"

section \<open>\<^verbatim>\<open>ScopeFeaturesHandler.post\<close>\<close>

text \<open>
  What the session and the current user answer during the request: whether an object
  with the given id is visible (\<^verbatim>\<open>obj is not None\<close>), the ids of the user's accessible
  groups, the ids of the groups that the selection by these ids finds, and the author
  of the annotation.
\<close>

record scope_world =
  sw_obj_visible :: "json \<Rightarrow> bool"
  sw_user_group_ids :: "int list"
  sw_visible_groups :: "int list \<Rightarrow> int list"
  sw_author :: int

text \<open>
  Modelled from the spec: the persistent store of annotations and its uniqueness
  constraint, which are not part of \<^verbatim>\<open>archive.py\<close>. The specification gives the
  store "a uniqueness-violation signal distinguishable from all other failures" and
  "at most one annotation per (object_id, origin, author)": \<open>commit store new\<close>, which is
  \<^verbatim>\<open>session.add_all(new); session.commit()\<close>, raises \<^verbatim>\<open>IntegrityError\<close> and stores
  nothing when a new annotation has the key of a stored one or of another new one, and
  otherwise appends the new annotations to the store.
\<close>

definition annotation_key :: "annotation \<Rightarrow> json \<times> string \<times> int" where
  "annotation_key a = (an_obj_id a, an_origin a, an_author a)"

definition commit :: "annotation list \<Rightarrow> annotation list \<Rightarrow> exn + annotation list" where
  "commit store new =
     (if distinct (map annotation_key new) \<and>
         list_all (\<lambda>a. annotation_key a \<notin> set (map annotation_key store)) new
      then Inr (store @ new)
      else Inl IntegrityError)"

text \<open>
  \<open>dict_set d k v\<close> is \<^verbatim>\<open>d[k] = v\<close>. The loop over \<^verbatim>\<open>features.keys()\<close> (lines 501 to
  506) leaves out the features whose value is null and converts five of them with
  \<^verbatim>\<open>int\<close>.
\<close>

definition dict_set :: "('k \<times> 'v) list \<Rightarrow> 'k \<Rightarrow> 'v \<Rightarrow> ('k \<times> 'v) list" where
  "dict_set d k v =
     (if k \<in> set (map fst d)
      then map (\<lambda>p. if fst p = k then (k, v) else p) d
      else d @ [(k, v)])"

fun collect_features ::
  "(string \<times> number option) list \<Rightarrow> (string \<times> number) list \<Rightarrow> (string \<times> number) list" where
  "collect_features [] annotation_data = annotation_data"
| "collect_features ((key, value) # rest) annotation_data =
     (case value of
        None \<Rightarrow> collect_features rest annotation_data
      | Some v \<Rightarrow>
          collect_features rest
            (dict_set annotation_data key
               (if key \<in> set [''_id'', ''field'', ''ccd'', ''quad'', ''n'']
                then Integer (py_int v) else v)))"

text \<open>
  The part of the handler inside \<^verbatim>\<open>with self.Session() as session\<close> (lines 427 to
  535), after the cone search has been answered by \<open>response\<close>. \<open>trace\<close> is the trace
  so far and \<open>store\<close> the stored annotations; the handler returns the store that it
  leaves.
\<close>

definition post_features ::
  "gloria \<Rightarrow> scope_world \<Rightarrow> annotation list \<Rightarrow> json \<Rightarrow> string \<Rightarrow> event list \<Rightarrow> reply \<Rightarrow>
   response \<times> event list \<times> annotation list" where
  "post_features g w store obj_id catalog trace response =
     (if \<not> sw_obj_visible w obj_id then (Error (Cannot_find_source obj_id) 403, trace, store)
      else
        let group_ids = sw_user_group_ids w;
            groups = sw_visible_groups w group_ids
        in if set groups \<noteq> set group_ids
           then (Error (Cannot_find_groups group_ids) 403, trace, store)
           else if succeeded response then
             (case map_of (r_sources response) catalog of
                None \<Rightarrow> (Raised KeyError, trace, store)
              | Some items \<Rightarrow>
                  (case map src_id items of
                     [] \<Rightarrow> (Success Empty_list, trace, store)
                   | first_id # other_ids \<Rightarrow>
                       let query = Find catalog first_id;
                           response2 = g query;
                           trace2 = trace @ [Query query]
                       in if succeeded response2 then
                            (case r_features response2 of
                               [] \<Rightarrow> (Raised IndexError, trace2, store)
                             | features # other_features \<Rightarrow>
                                 let annotation_data = collect_features features [];
                                     annotations =
                                       (if annotation_data \<noteq> []
                                        then [\<lparr> an_data = annotation_data, an_obj_id = obj_id,
                                                an_origin = catalog, an_author = sw_author w,
                                                an_groups = groups \<rparr>]
                                        else [])
                                 in if length annotations = 0
                                    then (Error No_SCoPe_features_available 400, trace2, store)
                                    else
                                      (case commit store annotations of
                                         Inl e \<Rightarrow>
                                           if e = IntegrityError
                                           then (Error Annotation_already_posted 400,
                                                 trace2 @ [Commit annotations], store)
                                           else (Raised e, trace2 @ [Commit annotations], store)
                                       | Inr store' \<Rightarrow>
                                           (Success No_data,
                                            trace2 @ [Commit annotations, Push_all], store')))
                          else (Error (Remote_message (r_message response2)) 400, trace2, store)))
           else (Error (Remote_message (r_message response)) 400, trace, store))"

text \<open>
  The body of the request is a JSON object. \<^verbatim>\<open>data.pop("id")\<close>, \<^verbatim>\<open>data.pop("ra")\<close>
  and \<^verbatim>\<open>data.pop("dec")\<close> raise \<^verbatim>\<open>KeyError\<close> for a missing key; the other three
  keys have defaults. A catalog that is in the list of available catalogs is a string.
\<close>

definition the_str :: "json \<Rightarrow> string" where
  "the_str v = (case v of JStr s \<Rightarrow> s | _ \<Rightarrow> [])"

definition ScopeFeaturesHandler_post ::
  "(string \<Rightarrow> pyfloat option) \<Rightarrow> gloria option \<Rightarrow> scope_world \<Rightarrow> annotation list \<Rightarrow>
   (string \<times> json) list \<Rightarrow> response \<times> event list \<times> annotation list" where
  "ScopeFeaturesHandler_post float_of_str gloria w store body =
     (case gloria of
        None \<Rightarrow> (Error Gloria_connection_unavailable 400, [], store)
      | Some g \<Rightarrow>
          (case r_names (g Info) of
             None \<Rightarrow> (Raised TypeError, [Query Info], store)
           | Some available_catalog_names \<Rightarrow>
               (let available_catalogs = feature_catalogs available_catalog_names
                in case map_of body ''id'' of
                     None \<Rightarrow> (Raised KeyError, [Query Info], store)
                   | Some obj_id \<Rightarrow>
                       (case map_of body ''ra'' of
                          None \<Rightarrow> (Raised KeyError, [Query Info], store)
                        | Some ra \<Rightarrow>
                            (case map_of body ''dec'' of
                               None \<Rightarrow> (Raised KeyError, [Query Info], store)
                             | Some dec \<Rightarrow>
                                 (let catalog =
                                        dict_get body ''catalog'' (JStr ''ZTF_source_features_DR5'');
                                      radius = dict_get body ''radius'' (JNum (Fin 2));
                                      radius_units = dict_get body ''radius_units'' (JStr ''arcsec'')
                                  in if catalog \<notin> set (map JStr available_catalogs)
                                     then (Error (Catalog_not_available catalog) 400,
                                           [Query Info], store)
                                     else
                                       (case check_position float_of_str False
                                               ra dec radius radius_units of
                                          Answered r \<Rightarrow> (r, [Query Info], store)
                                        | No_search \<Rightarrow> (Returned_None, [Query Info], store)
                                        | Search ra' dec' radius' radius_units' \<Rightarrow>
                                            let query = Near radius' radius_units' ra' dec'
                                                          [the_str catalog] True;
                                                response = g query
                                            in post_features g w store obj_id (the_str catalog)
                                                 [Query Info, Query query] response)))))))"

section \<open>\<^verbatim>\<open>ArchiveHandler.post\<close>\<close>

text \<open>
  The body of the request, with the types of its documentation, and what the
  collaborators of the handler answer during the request. Each call outside the file
  either returns or raises: \<^verbatim>\<open>create_token\<close> (the id of the token), the entry into
  \<^verbatim>\<open>with self.Session() as session\<close> (line 863), the property
  \<^verbatim>\<open>self.current_user\<close> (line 864), the selection of the sources with the object's id
  (their number), \<^verbatim>\<open>post_source\<close>, the selection of the instrument named ZTF (its
  id, or \<^verbatim>\<open>None\<close>), the selection of all streams, \<^verbatim>\<open>add_external_photometry\<close>
  and \<^verbatim>\<open>delete_token\<close>. \<^verbatim>\<open>self.current_user\<close> is read a second time for the
  call of \<^verbatim>\<open>add_external_photometry\<close>, where it is taken to answer as it did the
  first time. The last two fields are the arithmetic of the platform: the rounding of
  a real to the nearest float, and \<^verbatim>\<open>float(np.mean(xs))\<close> for a list that is not
  empty.
\<close>

record archive_post_body =
  b_obj_id :: "string option"
  b_catalog :: "string option"
  b_light_curve_ids :: "int list option"
  b_group_ids :: "int list option"

record post_world =
  pw_streams :: "stream list"
  pw_create_token :: "exn + int"
  pw_session :: "exn + unit"
  pw_current_user :: "exn + unit"
  pw_sources :: "string \<Rightarrow> exn + nat"
  pw_post_source :: "post_source_data \<Rightarrow> exn + unit"
  pw_ztf_instrument :: "exn + int option"
  pw_all_streams :: "exn + stream list option"
  pw_add_external_photometry :: "photometry \<Rightarrow> exn + unit"
  pw_delete_token :: "int \<Rightarrow> exn + unit"
  pw_float64 :: "real \<Rightarrow> real"
  pw_mean :: "real list \<Rightarrow> pyfloat"

text \<open>
  \<^verbatim>\<open>float(np.mean(xs))\<close>: the mean of the empty list is not a number (numpy warns
  and does not raise). \<^verbatim>\<open>radec_to_iau_name\<close> then raises \<^verbatim>\<open>ValueError\<close>, since
  both comparisons of its range check are false.
\<close>

definition np_mean :: "(real list \<Rightarrow> pyfloat) \<Rightarrow> real list \<Rightarrow> pyfloat" where
  "np_mean mean xs = (if xs = [] then NaN else mean xs)"

text \<open>
  How a block of statements ends: an exception escapes, a \<^verbatim>\<open>return\<close> statement
  answers, or the block runs to its end.
\<close>

datatype 'a flow =
    Raise exn
  | Return response
  | Normal 'a

text \<open>
  Lines 909 to 955, from \<^verbatim>\<open>make_photometry\<close> to \<^verbatim>\<open>add_external_photometry\<close>.
  \<open>steps\<close> are the steps of the pipeline so far.
\<close>

definition post_photometry ::
  "(real \<Rightarrow> real) \<Rightarrow> post_world \<Rightarrow> string \<Rightarrow> light_curve list \<Rightarrow> step list \<Rightarrow>
   string flow \<times> step list" where
  "post_photometry f32 w obj_id light_curves steps =
     (case make_photometry f32 light_curves True of
        Inl e \<Rightarrow> (Raise e, steps)
      | Inr df_photometry \<Rightarrow>
          (case pw_ztf_instrument w of
             Inl e \<Rightarrow> (Raise e, steps)
           | Inr None \<Rightarrow> (Return (Error ZTF_instrument_not_found 400), steps)
           | Inr (Some instrument_id) \<Rightarrow>
               (case pw_all_streams w of
                  Inl e \<Rightarrow> (Raise e, steps)
                | Inr None \<Rightarrow> (Return (Error Failed_to_get_mapping 400), steps)
                | Inr (Some streams) \<Rightarrow>
                    (case stream_ids_column (ztf_program_id_to_stream_id streams) df_photometry of
                       Inl e \<Rightarrow> (Raise e, steps)
                     | Inr stream_ids \<Rightarrow>
                         let photometry =
                               \<lparr> ph_obj_id = obj_id, ph_instrument_id = instrument_id,
                                 ph_rows = df_photometry, ph_stream_ids = stream_ids \<rparr>
                         in if length (map mag (ph_rows photometry)) > 0
                            then
                              (case pw_add_external_photometry w photometry of
                                 Inl e \<Rightarrow> (Raise e, steps @ [Add_external_photometry photometry])
                               | Inr u \<Rightarrow>
                                   (Normal obj_id, steps @ [Add_external_photometry photometry]))
                            else (Normal obj_id, steps)))))"

text \<open>
  The body of the \<^verbatim>\<open>try\<close> statement (lines 867 to 955): the name of the object, the
  source, then the photometry.
\<close>

definition post_pipeline ::
  "(real \<Rightarrow> real) \<Rightarrow> post_world \<Rightarrow> string option \<Rightarrow> int list option \<Rightarrow> light_curve list \<Rightarrow>
   string flow \<times> step list" where
  "post_pipeline f32 w obj_id group_ids light_curves =
     (let ra_mean = np_mean (pw_mean w) (List.map_filter lc_ra light_curves);
          dec_mean = np_mean (pw_mean w) (List.map_filter lc_dec light_curves)
      in case (case obj_id of
                 None \<Rightarrow> radec_to_iau_name (pw_float64 w) ra_mean dec_mean ''ZTFJ''
               | Some i \<Rightarrow> Inr i) of
           Inl e \<Rightarrow> (Raise e, [])
         | Inr obj_id' \<Rightarrow>
             (case pw_sources w obj_id' of
                Inl e \<Rightarrow> (Raise e, [])
              | Inr num_sources \<Rightarrow>
                  if num_sources > 0
                  then post_photometry f32 w obj_id' light_curves [Log_source_exists obj_id']
                  else
                    let post_source_data =
                          \<lparr> ps_id = obj_id', ps_ra = ra_mean, ps_dec = dec_mean,
                            ps_group_ids = group_ids, ps_origin = ''Fritz'' \<rparr>
                    in case pw_post_source w post_source_data of
                         Inl e \<Rightarrow> (Raise e, [Post_source post_source_data])
                       | Inr u \<Rightarrow>
                           post_photometry f32 w obj_id' light_curves
                             [Post_source post_source_data]))"

text \<open>
  \<^verbatim>\<open>try: ... finally: delete_token(token_id)\<close> (lines 866 to 959): whatever way the
  pipeline ends, \<^verbatim>\<open>delete_token\<close> is called next; an exception of \<^verbatim>\<open>delete_token\<close>
  replaces the outcome of the pipeline. After a pipeline that ran to its end the
  handler answers with the object's id. \<open>trace\<close> is the trace up to the \<^verbatim>\<open>try\<close>
  statement.
\<close>

definition try_finally ::
  "post_world \<Rightarrow> int \<Rightarrow> event list \<Rightarrow> string flow \<times> step list \<Rightarrow> response \<times> event list" where
  "try_finally w token_id trace pipeline =
     (let trace' = trace @ map Step (snd pipeline) @ [Delete_token token_id]
      in case pw_delete_token w token_id of
           Inl e \<Rightarrow> (Raised e, trace')
         | Inr u \<Rightarrow>
             (case fst pipeline of
                Raise e \<Rightarrow> (Raised e, trace')
              | Return r \<Rightarrow> (r, trace')
              | Normal obj_id \<Rightarrow> (Success (Obj_id obj_id), trace')))"

text \<open>
  Lines 857 to 961, from the token on. Between \<^verbatim>\<open>create_token\<close>, which has returned
  \<open>token_id\<close>, and the \<^verbatim>\<open>try\<close> statement stand the entry into
  \<^verbatim>\<open>with self.Session() as session\<close> and \<^verbatim>\<open>user = self.current_user\<close>: an
  exception of either leaves the handler before the \<^verbatim>\<open>try\<close> statement is entered,
  so that its \<^verbatim>\<open>finally\<close> clause does not run. The exit from the \<^verbatim>\<open>with\<close>
  statement, which follows \<^verbatim>\<open>delete_token\<close>, is not part of the model.
\<close>

definition with_token ::
  "post_world \<Rightarrow> int \<Rightarrow> event list \<Rightarrow> string flow \<times> step list \<Rightarrow> response \<times> event list" where
  "with_token w token_id trace pipeline =
     (case pw_session w of
        Inl e \<Rightarrow> (Raised e, trace @ [Create_token token_id])
      | Inr session \<Rightarrow>
          (case pw_current_user w of
             Inl e \<Rightarrow> (Raised e, trace @ [Create_token token_id])
           | Inr user \<Rightarrow> try_finally w token_id (trace @ [Create_token token_id]) pipeline))"

definition ArchiveHandler_post ::
  "(real \<Rightarrow> real) \<Rightarrow> gloria option \<Rightarrow> post_world \<Rightarrow> archive_post_body \<Rightarrow> response \<times> event list" where
  "ArchiveHandler_post f32 gloria w body =
     (case gloria of
        None \<Rightarrow> (Error Gloria_connection_unavailable 400, [])
      | Some g \<Rightarrow>
          (let obj_id = b_obj_id body;
               group_ids = b_group_ids body
           in if obj_id = None \<and> (group_ids = None \<or> group_ids = Some [])
              then (Error Parameter_group_ids_required 400, [])
              else
                (case b_catalog body of
                   None \<Rightarrow> (Error (Missing_required_parameter ''catalog'') 400, [])
                 | Some catalog \<Rightarrow>
                     (case b_light_curve_ids body of
                        None \<Rightarrow> (Error Bad_required_parameter_light_curve_ids 400, [])
                      | Some light_curve_ids \<Rightarrow>
                          if length light_curve_ids = 0
                          then (Error Bad_required_parameter_light_curve_ids 400, [])
                          else
                            (case program_id_selector (pw_streams w) of
                               Inl e \<Rightarrow> (Raised e, [])
                             | Inr program_ids \<Rightarrow>
                                 (let query = Aggregate catalog light_curve_ids program_ids;
                                      response = g query
                                  in if (case r_status response of None \<Rightarrow> ''error'' | Some s \<Rightarrow> s)
                                        = ''error''
                                     then (Error (Remote_message (r_message response)) 400,
                                           [Query query])
                                     else
                                       (let light_curves = r_light_curves response
                                        in if length light_curves = 0
                                           then (Error No_data_found 400, [Query query])
                                           else
                                             (case pw_create_token w of
                                                Inl e \<Rightarrow> (Raised e, [Query query])
                                              | Inr token_id \<Rightarrow>
                                                  with_token w token_id [Query query]
                                                    (post_pipeline f32 w obj_id group_ids
                                                       light_curves)))))))))"

section \<open>Notions of the specification\<close>

text \<open>
  The fixed-format regular expressions are sequences of character classes: a literal
  character, \<^verbatim>\<open>\d\<close> and \<^verbatim>\<open>[+-]\<close>; a string matches when it has one character per
  class, each in its class. \<open>spec_pattern\<close> is the specification's
  \<^verbatim>\<open>PREFIX\d{6}\.\d{2}[+-]\d{5}\.\d{1}\<close>; \<open>iau_pattern\<close> has six digits after the sign.
\<close>

datatype cclass = Lit char | Digit | Sign

fun accepts :: "cclass \<Rightarrow> char \<Rightarrow> bool" where
  "accepts (Lit c) x = (x = c)"
| "accepts Digit x = (x \<in> set ''0123456789'')"
| "accepts Sign x = (x = CHR ''+'' \<or> x = CHR ''-'')"

definition fullmatch :: "cclass list \<Rightarrow> string \<Rightarrow> bool" where
  "fullmatch pat s = list_all2 accepts pat s"

definition spec_pattern :: "string \<Rightarrow> cclass list" where
  "spec_pattern prefix =
     map Lit prefix @ replicate 6 Digit @ [Lit CHR ''.''] @ replicate 2 Digit @
     [Sign] @ replicate 5 Digit @ [Lit CHR ''.''] @ replicate 1 Digit"

definition iau_pattern :: "string \<Rightarrow> cclass list" where
  "iau_pattern prefix =
     map Lit prefix @ replicate 6 Digit @ [Lit CHR ''.''] @ replicate 2 Digit @
     [Sign] @ replicate 6 Digit @ [Lit CHR ''.''] @ replicate 1 Digit"

text \<open>
  The id of the last stream of a table that has a given name: what an assignment
  repeated over the table leaves in the dictionary.
\<close>

definition last_id_named :: "string \<Rightarrow> stream list \<Rightarrow> int option" where
  "last_id_named n streams =
     (case filter (\<lambda>s. stream_name s = n) streams of
        [] \<Rightarrow> None
      | l \<Rightarrow> Some (stream_id (last l)))"

text \<open>
  The row that \<open>make_row\<close> builds when the filter code is in the table; used to state
  what \<open>make_photometry\<close> returns.
\<close>

definition row_of :: "(real \<Rightarrow> real) \<Rightarrow> epoch \<times> int \<Rightarrow> phot_row" where
  "row_of f32 p =
     \<lparr> hjd = hjd (fst p), mag = f32 (mag (fst p)), magerr = f32 (magerr (fst p)),
       catflags = catflags (fst p), programid = programid (fst p),
       ep_ra = ep_ra (fst p), ep_dec = ep_dec (fst p),
       fid = snd p, ztf_filter = the (ztf_filters (snd p)), magsys = ''ab'', zp = 239 / 10,
       mjd = hjd (fst p) - 24000005 / 10 \<rparr>"

text \<open>
  A stream's name contains "ztf" in any mix of cases: some part of the name is "ztf"
  once its letters are put in lower case.
\<close>

definition names_ztf :: "string \<Rightarrow> bool" where
  "names_ztf n = (\<exists>pre mid post. n = pre @ mid @ post \<and> lower mid = ''ztf'')"

text \<open>
  A set of program ids that a caller with the given streams may see: it has the public
  program id 1, and every other id in it is declared by the selector of one of the
  caller's streams whose name contains "ztf".
\<close>

definition accessible :: "stream list \<Rightarrow> int set \<Rightarrow> bool" where
  "accessible streams S =
     (1 \<in> S \<and>
      (\<forall>p \<in> S. p \<noteq> 1 \<longrightarrow>
         (\<exists>s \<in> set streams. names_ztf (stream_name s) \<and>
            (\<exists>a. altdata s = Some a \<and> p \<in> set (dict_get a ''selector'' [])))))"

text \<open>
  The first of the four position values, in the order ra, dec, radius, radius_units,
  that is missing (\<^verbatim>\<open>None\<close>), by its name.
\<close>

definition first_missing :: "json \<Rightarrow> json \<Rightarrow> json \<Rightarrow> json \<Rightarrow> string option" where
  "first_missing ra dec radius radius_units =
     map_option fst
       (find (\<lambda>p. snd p = JNull)
          [(''ra'', ra), (''dec'', dec), (''radius'', radius), (''radius_units'', radius_units)])"



section \<open>Concrete inputs\<close>

text \<open>
  Two light curves of three epochs each, one epoch of the first flagged, in the filters
  r and g; the second light curve's epochs belong to program 2.
\<close>

definition example_light_curves :: "light_curve list" where
  "example_light_curves =
     [\<lparr> lc_id = 101, lc_ra = Some 180, lc_dec = Some 0, lc_filter = 2,
        lc_data =
          [\<lparr> hjd = 2458000.5, mag = 18, magerr = 0.1, catflags = 0, programid = 1, ep_ra = 180, ep_dec = 0 \<rparr>,
           \<lparr> hjd = 2458001.5, mag = 18.5, magerr = 0.1, catflags = 32768, programid = 1, ep_ra = 180, ep_dec = 0 \<rparr>,
           \<lparr> hjd = 2458002.5, mag = 18.2, magerr = 0.1, catflags = 0, programid = 1, ep_ra = 180, ep_dec = 0 \<rparr>] \<rparr>,
      \<lparr> lc_id = 102, lc_ra = Some 180, lc_dec = Some 0, lc_filter = 1,
        lc_data =
          [\<lparr> hjd = 2458003.5, mag = 19, magerr = 0.2, catflags = 0, programid = 2, ep_ra = 180, ep_dec = 0 \<rparr>,
           \<lparr> hjd = 2458004.5, mag = 19.1, magerr = 0.2, catflags = 0, programid = 2, ep_ra = 180, ep_dec = 0 \<rparr>,
           \<lparr> hjd = 2458005.5, mag = 19.3, magerr = 0.2, catflags = 0, programid = 2, ep_ra = 180, ep_dec = 0 \<rparr>] \<rparr>]"

text \<open>
  A catalog service that knows three catalogs, finds the two example light curves at
  every position, and returns those of them whose ids the aggregation asks for, their
  epochs filtered by the program ids of the query; the streams
  of a user with access to the public and to the partnership data; and a request to
  ingest the two light curves into a new source, whose collaborators all succeed. The
  coordinates of the example are small integers, on which the arithmetic of
  \<^verbatim>\<open>radec_to_iau_name\<close> is exact: its rounding is the identity.
\<close>

definition example_names :: "string list" where
  "example_names = [''ZTF_sources_20210401'', ''ZTF_source_features_DR5'', ''Gaia_EDR3'']"

definition empty_reply :: reply where
  "empty_reply =
     \<lparr> r_status = Some ''success'', r_message = None, r_names = None, r_sources = [],
       r_features = [], r_light_curves = [] \<rparr>"

definition example_gloria :: gloria where
  "example_gloria q =
     (case q of
        Info \<Rightarrow> empty_reply \<lparr> r_names := Some example_names \<rparr>
      | Near radius units ra dec catalogs ids_only \<Rightarrow>
          empty_reply \<lparr> r_sources :=
            map (\<lambda>c. (c, [\<lparr> src_id = 101, geo_lon = 0, geo_lat = 0 \<rparr>,
                          \<lparr> src_id = 102, geo_lon = 0, geo_lat = 0 \<rparr>])) catalogs \<rparr>
      | Find catalog ident \<Rightarrow>
          empty_reply \<lparr> r_features :=
            [[(''_id'', Some (Integer ident)), (''ad'', Some (Floating (3 / 2))),
              (''chi2red'', None), (''n'', Some (Floating 25))]] \<rparr>
      | Aggregate catalog ids program_ids \<Rightarrow>
          empty_reply \<lparr> r_light_curves :=
            map (\<lambda>lc. lc \<lparr> lc_data := filter (\<lambda>e. programid e \<in> program_ids) (lc_data lc) \<rparr>)
              (filter (\<lambda>lc. lc_id lc \<in> set ids) example_light_curves) \<rparr>)"

definition example_streams :: "stream list" where
  "example_streams =
     [\<lparr> stream_id = 1, stream_name = ''ZTF Public'', altdata = Some [(''selector'', [1])] \<rparr>,
      \<lparr> stream_id = 2, stream_name = ''ZTF Public+Partnership'',
        altdata = Some [(''selector'', [1, 2])] \<rparr>,
      \<lparr> stream_id = 5, stream_name = ''LSST'', altdata = None \<rparr>]"

definition example_world :: post_world where
  "example_world =
     \<lparr> pw_streams = example_streams, pw_create_token = Inr 7, pw_session = Inr (),
       pw_current_user = Inr (), pw_sources = (\<lambda>i. Inr 0),
       pw_post_source = (\<lambda>d. Inr ()), pw_ztf_instrument = Inr (Some 1),
       pw_all_streams = Inr (Some example_streams),
       pw_add_external_photometry = (\<lambda>p. Inr ()), pw_delete_token = (\<lambda>t. Inr ()),
       pw_float64 = id, pw_mean = (\<lambda>xs. Fin (sum_list xs / real (length xs))) \<rparr>"

definition example_body :: archive_post_body where
  "example_body =
     \<lparr> b_obj_id = None, b_catalog = Some ''ZTF_sources_20210401'',
       b_light_curve_ids = Some [101, 102], b_group_ids = Some [3] \<rparr>"

text \<open>
  The table of all streams, with the three streams of ZTF and a fourth whose name only
  begins like the third's.
\<close>

definition example_stream_table :: "stream list" where
  "example_stream_table =
     [\<lparr> stream_id = 1, stream_name = ''ZTF Public'', altdata = Some [(''selector'', [1])] \<rparr>,
      \<lparr> stream_id = 2, stream_name = ''ZTF Public+Partnership'',
        altdata = Some [(''selector'', [1, 2])] \<rparr>,
      \<lparr> stream_id = 3, stream_name = ''ZTF Public+Partnership+Caltech'',
        altdata = Some [(''selector'', [1, 2, 3])] \<rparr>,
      \<lparr> stream_id = 4, stream_name = ''ZTF Public+Partnership+Caltech (test)'', altdata = None \<rparr>]"

text \<open>
  A parser for the floats that are written as a sequence of digits, and the query
  arguments of a cone search of 5 arc seconds around (180, 0).
\<close>

fun nat_of_digits :: "nat \<Rightarrow> string \<Rightarrow> nat option" where
  "nat_of_digits acc [] = Some acc"
| "nat_of_digits acc (c # cs) =
     (case map_of (zip ''0123456789'' [0, 1, 2, 3, 4, 5, 6, 7, 8, 9]) c of
        None \<Rightarrow> None
      | Some d \<Rightarrow> nat_of_digits (10 * acc + d) cs)"

definition example_float_of_str :: "string \<Rightarrow> pyfloat option" where
  "example_float_of_str s =
     (if s = [] then None else map_option (\<lambda>n. Fin (real n)) (nat_of_digits 0 s))"

definition example_args :: position_args where
  "example_args =
     \<lparr> arg_ra = Some ''180'', arg_dec = Some ''0'', arg_radius = Some ''5'',
       arg_radius_units = Some ''arcsec'', arg_catalog = Some ''ZTF_sources_20210401'' \<rparr>"

text \<open>
  A request for the features of an object that the user sees, whose body gives no
  radius; the user is in the group 3 and is the author 42.
\<close>

definition example_scope_world :: scope_world where
  "example_scope_world =
     \<lparr> sw_obj_visible = (\<lambda>i. True), sw_user_group_ids = [3],
       sw_visible_groups = (\<lambda>ids. ids), sw_author = 42 \<rparr>"

definition example_scope_body :: "(string \<times> json) list" where
  "example_scope_body =
     [(''id'', JStr ''ZTF21aaaaaaa''), (''ra'', JNum (Fin 180)), (''dec'', JNum (Fin 1)),
      (''radius_units'', JStr ''arcsec'')]"

section \<open>Properties of the string functions\<close>

lemma startswith_iff: "startswith s p \<longleftrightarrow> (\<exists>post. s = p @ post)"
  by (induction s p rule: startswith.induct) auto

lemma contains_iff: "contains sub s \<longleftrightarrow> (\<exists>pre post. s = pre @ sub @ post)"
proof (induction s)
  case Nil
  then show ?case by auto
next
  case (Cons c cs)
  show ?case
  proof
    assume "contains sub (c # cs)"
    then consider "startswith (c # cs) sub" | "contains sub cs" by auto
    then show "\<exists>pre post. c # cs = pre @ sub @ post"
    proof cases
      case 1
      then obtain post where "c # cs = sub @ post" using startswith_iff by blast
      then have "c # cs = [] @ sub @ post" by simp
      then show ?thesis by blast
    next
      case 2
      with Cons obtain pre post where "cs = pre @ sub @ post" by blast
      then have "c # cs = (c # pre) @ sub @ post" by simp
      then show ?thesis by blast
    qed
  next
    assume "\<exists>pre post. c # cs = pre @ sub @ post"
    then obtain pre post where e: "c # cs = pre @ sub @ post" by blast
    show "contains sub (c # cs)"
    proof (cases pre)
      case Nil
      with e have "startswith (c # cs) sub" using startswith_iff by auto
      then show ?thesis by simp
    next
      case (Cons a pre')
      with e have "cs = pre' @ sub @ post" by simp
      with Cons.IH have "contains sub cs" by blast
      then show ?thesis by simp
    qed
  qed
qed

text \<open>
  The handlers' test \<^verbatim>\<open>"ztf" in stream.name.lower()\<close> is the specification's
  "name contains ztf, case-insensitively".
\<close>

lemma map_eq_append3:
  assumes "map f n = a @ m @ b"
  shows "\<exists>pre mid post. n = pre @ mid @ post \<and> map f mid = m"
proof -
  from assms have "\<exists>us vs. n = us @ vs \<and> a = map f us \<and> m @ b = map f vs"
    by (simp only: map_eq_append_conv)
  then obtain pre rest where n: "n = pre @ rest" and r: "m @ b = map f rest"
    by blast
  from r have "\<exists>us vs. rest = us @ vs \<and> m = map f us \<and> b = map f vs"
    by (simp only: append_eq_map_conv)
  then obtain mid post where "rest = mid @ post" and "map f mid = m"
    by blast
  with n show ?thesis by blast
qed

lemma contains_lower_iff:
  "contains sub (lower n) \<longleftrightarrow> (\<exists>pre mid post. n = pre @ mid @ post \<and> lower mid = sub)"
proof
  assume "contains sub (lower n)"
  then obtain a b where "lower n = a @ sub @ b" using contains_iff by blast
  then have "map lower_char n = a @ sub @ b" by (simp only: lower_def)
  then show "\<exists>pre mid post. n = pre @ mid @ post \<and> lower mid = sub"
    unfolding lower_def by (rule map_eq_append3)
next
  assume "\<exists>pre mid post. n = pre @ mid @ post \<and> lower mid = sub"
  then obtain pre mid post where n: "n = pre @ mid @ post" and m: "lower mid = sub"
    by blast
  have "lower n = lower pre @ lower mid @ lower post"
    unfolding n lower_def by simp
  with m have "lower n = lower pre @ sub @ lower post" by simp
  then show "contains sub (lower n)" using contains_iff by blast
qed

lemma contains_ztf_iff: "contains ''ztf'' (lower n) \<longleftrightarrow> names_ztf n"
  unfolding names_ztf_def by (rule contains_lower_iff)

section \<open>Properties of \<^verbatim>\<open>radec_to_iau_name\<close>\<close>

lemma digits_small: "n < 10 \<Longrightarrow> digits n = [digit_char n]"
  by (simp add: digits.simps)

lemma digits_large: "\<not> n < 10 \<Longrightarrow> digits n = digits (n div 10) @ [digit_char (n mod 10)]"
  by (subst digits.simps) simp

lemma accepts_digit_char: "d < 10 \<Longrightarrow> accepts Digit (digit_char d)"
proof -
  assume "d < 10"
  then have "d < length ''0123456789''" by simp
  then have "''0123456789'' ! d \<in> set ''0123456789''" by (rule nth_mem)
  then show ?thesis by (simp only: digit_char_def accepts.simps)
qed

lemma digits_two: "\<not> n < 10 \<Longrightarrow> n < 100 \<Longrightarrow> digits n = [digit_char (n div 10), digit_char (n mod 10)]"
proof -
  assume a: "\<not> n < 10" and b: "n < 100"
  then have "n div 10 < 10" by simp
  then have "digits (n div 10) = [digit_char (n div 10)]" by (rule digits_small)
  with a show ?thesis by (simp add: digits_large)
qed

lemma two_digits: "n < 100 \<Longrightarrow> list_all2 accepts [Digit, Digit] (zfill 2 (digits n))"
proof (cases "n < 10")
  case True
  then have "zfill 2 (digits n) = [CHR ''0'', digit_char n]"
    by (simp add: zfill_def digits_small)
  then show ?thesis using True by (simp add: accepts_digit_char del: accepts.simps(2)) simp
next
  case False
  assume "n < 100"
  with False have d: "digits n = [digit_char (n div 10), digit_char (n mod 10)]"
    by (rule digits_two)
  have "n div 10 < 10" using \<open>n < 100\<close> by simp
  moreover have "n mod 10 < 10" by simp
  ultimately show ?thesis by (simp add: d zfill_def accepts_digit_char del: accepts.simps(2))
qed

lemma one_digit: "n < 10 \<Longrightarrow> list_all2 accepts [Digit] (zfill 1 (digits n))"
  by (simp add: zfill_def digits_small accepts_digit_char del: accepts.simps(2))

lemma length_digits: "n < 100 \<Longrightarrow> length (digits n) = (if n < 10 then 1 else 2)"
  by (simp add: digits_small digits_two)

lemma zfill_body:
  assumes "a < 100" and "length t = k"
  shows "zfill (3 + k) (digits a @ CHR ''.'' # t) = zfill 2 (digits a) @ CHR ''.'' # t"
  using assms by (simp add: zfill_def length_digits)

lemma round_half_even_of_int: "round_half_even (of_int k) = k"
  by (simp add: round_half_even_def)

lemma round_half_even_nonneg: "0 \<le> y \<Longrightarrow> 0 \<le> round_half_even y"
proof -
  assume "0 \<le> y"
  then have "0 \<le> \<lfloor>y\<rfloor>" by simp
  then show ?thesis by (simp add: round_half_even_def Let_def)
qed

lemma round_half_even_le: "y \<le> of_int M \<Longrightarrow> round_half_even y \<le> M"
proof -
  assume le: "y \<le> of_int M"
  then have f: "\<lfloor>y\<rfloor> \<le> M" by (simp add: floor_le_iff)
  show ?thesis
  proof (cases "\<lfloor>y\<rfloor> = M")
    case True
    have "of_int \<lfloor>y\<rfloor> \<le> y" by simp
    with True le have "y = of_int M" by simp
    then show ?thesis by (simp add: round_half_even_of_int)
  next
    case False
    with f have "\<lfloor>y\<rfloor> + 1 \<le> M" by simp
    then show ?thesis by (simp add: round_half_even_def Let_def)
  qed
qed

lemma format_int_two:
  assumes "0 \<le> k" and "k < 100"
  shows "list_all2 accepts [Digit, Digit] (format_f False 2 0 False (of_int k))"
proof -
  have "nat (round_half_even (\<bar>of_int k\<bar> * 10 ^ 0)) = nat k"
    using assms(1) by (simp add: round_half_even_of_int)
  then have "format_f False 2 0 False (of_int k) = zfill 2 (digits (nat k))"
    by (simp add: format_f_def)
  moreover have "nat k < 100" using assms by simp
  ultimately show ?thesis by (simp add: two_digits)
qed

lemma format_signed_two:
  assumes "\<bar>x\<bar> = of_int k" and "0 \<le> k" and "k < 100"
  shows "list_all2 accepts [Sign, Digit, Digit] (format_f True 3 0 negative x)"
proof -
  have "nat (round_half_even (\<bar>x\<bar> * 10 ^ 0)) = nat k"
    using assms(1,2) by (simp add: round_half_even_of_int)
  then have "format_f True 3 0 negative x =
      (if negative then ''-'' else ''+'') @ zfill 2 (digits (nat k))"
    by (simp add: format_f_def)
  moreover have "list_all2 accepts [Digit, Digit] (zfill 2 (digits (nat k)))"
    using assms by (intro two_digits) simp
  ultimately show ?thesis by simp
qed

lemma format_seconds2:
  assumes "0 \<le> x" and "x \<le> 60"
  shows "list_all2 accepts [Digit, Digit, Lit CHR ''.'', Digit, Digit] (format_f False 5 2 False x)"
proof -
  define n where "n = nat (round_half_even (\<bar>x\<bar> * 10 ^ 2))"
  have "\<bar>x\<bar> * 10 ^ 2 \<le> of_int 6000" using assms by simp
  then have "round_half_even (\<bar>x\<bar> * 10 ^ 2) \<le> 6000" by (rule round_half_even_le)
  then have n: "n \<le> 6000" by (simp add: n_def)
  then have a: "n div 100 < 100" by simp
  have b: "n mod 100 < 100" by simp
  have "format_f False 5 2 False x =
      zfill (3 + 2) (digits (n div 100) @ CHR ''.'' # zfill 2 (digits (n mod 100)))"
    by (simp add: format_f_def n_def Let_def)
  also have "\<dots> = zfill 2 (digits (n div 100)) @ CHR ''.'' # zfill 2 (digits (n mod 100))"
    using a b by (intro zfill_body) (simp_all add: zfill_def length_digits)
  finally have eq: "format_f False 5 2 False x =
      zfill 2 (digits (n div 100)) @ CHR ''.'' # zfill 2 (digits (n mod 100))" .
  have "list_all2 accepts ([Digit, Digit] @ Lit CHR ''.'' # [Digit, Digit])
      (zfill 2 (digits (n div 100)) @ CHR ''.'' # zfill 2 (digits (n mod 100)))"
    using two_digits [OF a] two_digits [OF b]
    by (intro list_all2_appendI list_all2_Cons [THEN iffD2] conjI) simp_all
  with eq show ?thesis by simp
qed

lemma format_seconds1:
  assumes "0 \<le> x" and "x \<le> 60"
  shows "list_all2 accepts [Digit, Digit, Lit CHR ''.'', Digit] (format_f False 4 1 False x)"
proof -
  define n where "n = nat (round_half_even (\<bar>x\<bar> * 10 ^ 1))"
  have "\<bar>x\<bar> * 10 ^ 1 \<le> of_int 600" using assms by simp
  then have "round_half_even (\<bar>x\<bar> * 10 ^ 1) \<le> 600" by (rule round_half_even_le)
  then have n: "n \<le> 600" by (simp add: n_def)
  then have a: "n div 10 < 100" by simp
  have b: "n mod 10 < 10" by simp
  have "format_f False 4 1 False x =
      zfill (3 + 1) (digits (n div 10) @ CHR ''.'' # zfill 1 (digits (n mod 10)))"
    by (simp add: format_f_def n_def Let_def)
  also have "\<dots> = zfill 2 (digits (n div 10)) @ CHR ''.'' # zfill 1 (digits (n mod 10))"
    using a b by (intro zfill_body) (simp_all add: zfill_def digits_small)
  finally have eq: "format_f False 4 1 False x =
      zfill 2 (digits (n div 10)) @ CHR ''.'' # zfill 1 (digits (n mod 10))" .
  have "list_all2 accepts ([Digit, Digit] @ Lit CHR ''.'' # [Digit])
      (zfill 2 (digits (n div 10)) @ CHR ''.'' # zfill 1 (digits (n mod 10)))"
    using two_digits [OF a] one_digit [OF b]
    by (intro list_all2_appendI list_all2_Cons [THEN iffD2] conjI) simp_all
  with eq show ?thesis by simp
qed

text \<open>The shape of the name for coordinates in range.\<close>

lemma list_all2_lit: "list_all2 accepts (map Lit p) p"
  by (induction p) simp_all

lemma iau_pattern_groups:
  "iau_pattern prefix =
     map Lit prefix @
     ([Digit, Digit] @ [Digit, Digit] @ [Digit, Digit, Lit CHR ''.'', Digit, Digit]) @
     ([Sign, Digit, Digit] @ [Digit, Digit] @ [Digit, Digit, Lit CHR ''.'', Digit])"
  by (simp add: iau_pattern_def numeral_eq_Suc)

text \<open>What a rounding does to a bounded value, to a fraction and to a count of sixtieths.\<close>

lemma rounding_mono: "rounding rnd \<Longrightarrow> x \<le> y \<Longrightarrow> rnd x \<le> rnd y"
  by (simp add: rounding_def)

lemma rounding_of_int: "rounding rnd \<Longrightarrow> \<bar>k\<bar> \<le> 2 ^ 53 \<Longrightarrow> rnd (of_int k) = of_int k"
  by (simp add: rounding_def)

lemma rounding_zero: "rounding rnd \<Longrightarrow> rnd 0 = 0"
  using rounding_of_int [of rnd 0] by simp

lemma rounding_numeral:
  "rounding rnd \<Longrightarrow> (numeral n :: int) \<le> 2 ^ 53 \<Longrightarrow> rnd (numeral n) = numeral n"
  using rounding_of_int [of rnd "numeral n"] by simp

lemma rounding_between:
  assumes "rounding rnd" and "of_int a \<le> x" and "x \<le> of_int b"
    and "\<bar>a\<bar> \<le> 2 ^ 53" and "\<bar>b\<bar> \<le> 2 ^ 53"
  shows "of_int a \<le> rnd x" and "rnd x \<le> of_int b"
proof -
  have "rnd (of_int a) \<le> rnd x" using assms(1,2) by (rule rounding_mono)
  then show "of_int a \<le> rnd x" using rounding_of_int [OF assms(1,4)] by simp
  have "rnd x \<le> rnd (of_int b)" using assms(1,3) by (rule rounding_mono)
  then show "rnd x \<le> of_int b" using rounding_of_int [OF assms(1,5)] by simp
qed

lemma rounding_unit:
  assumes "rounding rnd" and "- 1 \<le> x" and "x \<le> 1"
  shows "- 1 \<le> rnd x" and "rnd x \<le> 1"
  using rounding_between [of rnd "- 1" x 1] assms by simp_all

lemma rounding_nonneg:
  assumes "rounding rnd" and "0 \<le> x"
  shows "0 \<le> rnd x"
proof -
  have "rnd 0 \<le> rnd x" using assms by (rule rounding_mono)
  then show ?thesis using rounding_zero [OF assms(1)] by simp
qed

lemma rounding_sixty:
  assumes "rounding rnd" and "\<bar>u\<bar> \<le> 1"
  shows "0 \<le> rnd (\<bar>u\<bar> * 60)" and "rnd (\<bar>u\<bar> * 60) \<le> 60"
proof -
  have "0 \<le> \<bar>u\<bar> * 60" and "\<bar>u\<bar> * 60 \<le> 60" using assms(2) by simp_all
  then show "0 \<le> rnd (\<bar>u\<bar> * 60)" and "rnd (\<bar>u\<bar> * 60) \<le> 60"
    using rounding_between [of rnd 0 "\<bar>u\<bar> * 60" 60] assms(1) by simp_all
qed

lemma rounding_frac:
  fixes y :: real
  assumes "rounding rnd"
  shows "0 \<le> rnd (y - of_int \<lfloor>y\<rfloor>)" and "rnd (y - of_int \<lfloor>y\<rfloor>) \<le> 1"
proof -
  have "of_int \<lfloor>y\<rfloor> \<le> y" by simp
  then have a: "0 \<le> y - of_int \<lfloor>y\<rfloor>" by simp
  have "y - of_int \<lfloor>y\<rfloor> < 1" by linarith
  then have b: "y - of_int \<lfloor>y\<rfloor> \<le> 1" by simp
  show "0 \<le> rnd (y - of_int \<lfloor>y\<rfloor>)" using assms a by (rule rounding_nonneg)
  show "rnd (y - of_int \<lfloor>y\<rfloor>) \<le> 1" using rounding_unit(2) [OF assms _ b] a by simp
qed

lemma floor_sixty:
  fixes y :: real
  assumes "0 \<le> y" and "y \<le> 60"
  shows "0 \<le> \<lfloor>y\<rfloor>" and "\<lfloor>y\<rfloor> < 100"
proof -
  show "0 \<le> \<lfloor>y\<rfloor>" using assms(1) by simp
  have "\<lfloor>y\<rfloor> \<le> 60" using assms(2) by (simp add: floor_le_iff)
  then show "\<lfloor>y\<rfloor> < 100" by simp
qed

text \<open>
  Minutes and seconds: for a value \<open>u\<close> between 0 and 1, what is formatted of
  \<^verbatim>\<open>u * 60.0\<close> and of the sixtieths that remain of it.
\<close>

lemma minutes_seconds2:
  assumes "rounding rnd" and "\<bar>u\<bar> \<le> 1"
  shows "list_all2 accepts ([Digit, Digit] @ [Digit, Digit, Lit CHR ''.'', Digit, Digit])
     (format_f False 2 0 False (of_int \<lfloor>rnd (\<bar>u\<bar> * 60)\<rfloor>) @
      format_f False 5 2 False
        (rnd (\<bar>rnd (rnd (\<bar>u\<bar> * 60) - of_int \<lfloor>rnd (\<bar>u\<bar> * 60)\<rfloor>)\<bar> * 60)))"
proof -
  let ?fm = "rnd (\<bar>u\<bar> * 60)"
  let ?g = "rnd (?fm - of_int \<lfloor>?fm\<rfloor>)"
  have fm: "0 \<le> ?fm" "?fm \<le> 60" using assms by (rule rounding_sixty)+
  have g: "\<bar>?g\<bar> \<le> 1" using rounding_frac [OF assms(1), of ?fm] by simp
  have s: "0 \<le> rnd (\<bar>?g\<bar> * 60)" "rnd (\<bar>?g\<bar> * 60) \<le> 60"
    using assms(1) g by (rule rounding_sixty)+
  show ?thesis
    by (intro list_all2_appendI format_int_two format_seconds2 floor_sixty fm s)
qed

lemma minutes_seconds1:
  assumes "rounding rnd" and "\<bar>u\<bar> \<le> 1"
  shows "list_all2 accepts ([Digit, Digit] @ [Digit, Digit, Lit CHR ''.'', Digit])
     (format_f False 2 0 False (of_int \<lfloor>rnd (\<bar>u\<bar> * 60)\<rfloor>) @
      format_f False 4 1 False
        (rnd (\<bar>rnd (rnd (\<bar>u\<bar> * 60) - of_int \<lfloor>rnd (\<bar>u\<bar> * 60)\<rfloor>)\<bar> * 60)))"
proof -
  let ?fm = "rnd (\<bar>u\<bar> * 60)"
  let ?g = "rnd (?fm - of_int \<lfloor>?fm\<rfloor>)"
  have fm: "0 \<le> ?fm" "?fm \<le> 60" using assms by (rule rounding_sixty)+
  have g: "\<bar>?g\<bar> \<le> 1" using rounding_frac [OF assms(1), of ?fm] by simp
  have s: "0 \<le> rnd (\<bar>?g\<bar> * 60)" "rnd (\<bar>?g\<bar> * 60) \<le> 60"
    using assms(1) g by (rule rounding_sixty)+
  show ?thesis
    by (intro list_all2_appendI format_int_two format_seconds1 floor_sixty fm s)
qed

text \<open>The hours of a right ascension in range, and the degrees of a declination in range.\<close>

lemma hours_in_range:
  assumes "rounding rnd" and "0 \<le> r" and "r < 360"
  shows "0 \<le> \<lfloor>rnd (rnd (r * 12) / 180)\<rfloor>" and "\<lfloor>rnd (rnd (r * 12) / 180)\<rfloor> < 100"
proof -
  have "0 \<le> r * 12" and "r * 12 \<le> 4320" using assms(2,3) by simp_all
  then have "0 \<le> rnd (r * 12)" and "rnd (r * 12) \<le> 4320"
    using rounding_between [of rnd 0 "r * 12" 4320] assms(1) by simp_all
  then have "0 \<le> rnd (r * 12) / 180" and "rnd (r * 12) / 180 \<le> 24" by simp_all
  then have h: "0 \<le> rnd (rnd (r * 12) / 180)" "rnd (rnd (r * 12) / 180) \<le> 24"
    using rounding_between [of rnd 0 "rnd (r * 12) / 180" 24] assms(1) by simp_all
  show "0 \<le> \<lfloor>rnd (rnd (r * 12) / 180)\<rfloor>" using h(1) by simp
  have "\<lfloor>rnd (rnd (r * 12) / 180)\<rfloor> \<le> 24" using h(2) by (simp add: floor_le_iff)
  then show "\<lfloor>rnd (rnd (r * 12) / 180)\<rfloor> < 100" by simp
qed

lemma near_negation: "k \<le> - d \<Longrightarrow> - d - k < 1 \<Longrightarrow> \<bar>d + k\<bar> \<le> (1::real)"
  by linarith

lemma degrees_in_range:
  assumes "rounding rnd" and "- 90 \<le> d" and "d \<le> 90"
  shows "rnd (of_int \<lfloor>\<bar>d\<bar>\<rfloor> * sgn d) = of_int \<lfloor>\<bar>d\<bar>\<rfloor> * sgn d"
    and "\<bar>of_int \<lfloor>\<bar>d\<bar>\<rfloor> * sgn d\<bar> = of_int (if d = 0 then 0 else \<lfloor>\<bar>d\<bar>\<rfloor>)"
    and "0 \<le> \<lfloor>\<bar>d\<bar>\<rfloor>" and "\<lfloor>\<bar>d\<bar>\<rfloor> < 100"
    and "\<bar>d - of_int \<lfloor>\<bar>d\<bar>\<rfloor> * sgn d\<bar> \<le> 1"
proof -
  let ?k = "\<lfloor>\<bar>d\<bar>\<rfloor>"
  show k0: "0 \<le> ?k" by simp
  have "\<bar>d\<bar> \<le> 90" using assms(2,3) by simp
  then have k90: "?k \<le> 90" by (simp add: floor_le_iff)
  then show "?k < 100" by simp
  have le: "of_int ?k \<le> \<bar>d\<bar>" by simp
  have lt: "\<bar>d\<bar> - of_int ?k < 1" by linarith
  consider "d = 0" | "0 < d" | "d < 0" by linarith
  then have "(\<exists>j::int. \<bar>j\<bar> \<le> 2 ^ 53 \<and> of_int ?k * sgn d = of_int j) \<and>
      \<bar>of_int ?k * sgn d\<bar> = of_int (if d = 0 then 0 else ?k) \<and>
      \<bar>d - of_int ?k * sgn d\<bar> \<le> 1"
  proof cases
    case 1
    then show ?thesis by (simp add: exI [of _ 0])
  next
    case 2
    have "\<bar>?k\<bar> \<le> 2 ^ 53" using k0 k90 by simp
    moreover have "of_int ?k * sgn d = of_int ?k" using 2 by simp
    moreover have "\<bar>d - of_int ?k\<bar> \<le> 1" using 2 le lt by simp
    ultimately show ?thesis using 2 k0 by (simp add: exI [of _ ?k])
  next
    case 3
    have "\<bar>- ?k\<bar> \<le> 2 ^ 53" using k0 k90 by simp
    moreover have "of_int ?k * sgn d = of_int (- ?k)" using 3 by simp
    moreover have "\<bar>d + of_int ?k\<bar> \<le> 1"
    proof (rule near_negation)
      show "of_int ?k \<le> - d" using 3 le by simp
      show "- d - of_int ?k < 1" using 3 lt by simp
    qed
    ultimately show ?thesis using 3 k0 by (simp add: exI [of _ "- ?k"])
  qed
  then obtain j :: int where j: "\<bar>j\<bar> \<le> 2 ^ 53" "of_int ?k * sgn d = of_int j"
    and a: "\<bar>of_int ?k * sgn d\<bar> = of_int (if d = 0 then 0 else ?k)"
    and b: "\<bar>d - of_int ?k * sgn d\<bar> \<le> 1"
    by blast
  show "rnd (of_int ?k * sgn d) = of_int ?k * sgn d"
    unfolding j(2) using assms(1) j(1) by (rule rounding_of_int)
  show "\<bar>of_int ?k * sgn d\<bar> = of_int (if d = 0 then 0 else ?k)" by (rule a)
  show "\<bar>d - of_int ?k * sgn d\<bar> \<le> 1" by (rule b)
qed

lemma radec_in_range:
  assumes "rounding rnd" and "0 \<le> r" and "r < 360" and "- 90 \<le> d" and "d \<le> 90"
    and "ra = Fin r" and "dec = Fin d \<or> (dec = Neg_zero \<and> d = 0)"
  shows "\<exists>s. radec_to_iau_name rnd ra dec prefix = Inr s \<and> fullmatch (iau_pattern prefix) s"
proof -
  define hours where "hours = rnd (rnd (r * 12) / 180)"
  define u where "u = rnd (hours - of_int \<lfloor>hours\<rfloor>)"
  define dd where "dd = of_int \<lfloor>\<bar>d\<bar>\<rfloor> * sgn d"
  define v where "v = rnd (d - dd)"
  have fval: "fval ra = r" "fval dec = d" using assms(6,7) by auto
  have range: "float_ge ra 0 \<and> float_lt ra 360" "float_ge dec (- 90) \<and> float_le dec 90"
    using assms(2-7) by auto
  have flag: "(ra = Neg_zero) = False" using assms(6) by simp
  have h: "0 \<le> \<lfloor>hours\<rfloor>" "\<lfloor>hours\<rfloor> < 100"
    unfolding hours_def using assms(1-3) by (rule hours_in_range)+
  have u0: "0 \<le> u" and u1: "\<bar>u\<bar> \<le> 1"
    using rounding_frac [OF assms(1), of hours] by (simp_all add: u_def)
  then have u: "\<bar>u\<bar> = u" by simp
  note deg = degrees_in_range [OF assms(1,4,5)]
  have dd: "rnd (of_int \<lfloor>\<bar>d\<bar>\<rfloor> * sgn d) = dd" unfolding dd_def by (rule deg(1))
  have v1: "\<bar>v\<bar> \<le> 1"
  proof -
    have "\<bar>d - dd\<bar> \<le> 1" unfolding dd_def by (rule deg(5))
    then have "- 1 \<le> d - dd" and "d - dd \<le> 1" by simp_all
    then have "- 1 \<le> v" and "v \<le> 1"
      unfolding v_def using assms(1) by (simp_all add: rounding_unit)
    then show ?thesis by simp
  qed
  let ?hms = "format_f False 2 0 False (of_int \<lfloor>hours\<rfloor>) @
      (format_f False 2 0 False (of_int \<lfloor>rnd (\<bar>u\<bar> * 60)\<rfloor>) @
       format_f False 5 2 False
         (rnd (\<bar>rnd (rnd (\<bar>u\<bar> * 60) - of_int \<lfloor>rnd (\<bar>u\<bar> * 60)\<rfloor>)\<bar> * 60)))"
  let ?dms = "format_f True 3 0 (d < 0) dd @
      (format_f False 2 0 False (of_int \<lfloor>rnd (\<bar>v\<bar> * 60)\<rfloor>) @
       format_f False 4 1 False
         (rnd (\<bar>rnd (rnd (\<bar>v\<bar> * 60) - of_int \<lfloor>rnd (\<bar>v\<bar> * 60)\<rfloor>)\<bar> * 60)))"
  have g0: "0 \<le> rnd (rnd (u * 60) - of_int \<lfloor>rnd (u * 60)\<rfloor>)"
    using assms(1) by (rule rounding_frac)
  have eq: "radec_to_iau_name rnd ra dec prefix = Inr (prefix @ ?hms @ ?dms)"
    unfolding radec_to_iau_name_def Let_def fval flag
    using range g0 by (simp add: hours_def [symmetric] u_def [symmetric] dd v_def [symmetric] u)
  have hms: "list_all2 accepts
      ([Digit, Digit] @ [Digit, Digit] @ [Digit, Digit, Lit CHR ''.'', Digit, Digit]) ?hms"
    by (intro list_all2_appendI format_int_two h minutes_seconds2 assms(1) u1)
  have sgn: "list_all2 accepts [Sign, Digit, Digit] (format_f True 3 0 (d < 0) dd)"
  proof (rule format_signed_two)
    show "\<bar>dd\<bar> = of_int (if d = 0 then 0 else \<lfloor>\<bar>d\<bar>\<rfloor>)" unfolding dd_def by (rule deg(2))
    show "0 \<le> (if d = 0 then 0 else \<lfloor>\<bar>d\<bar>\<rfloor>)" by simp
    show "(if d = 0 then 0 else \<lfloor>\<bar>d\<bar>\<rfloor>) < 100" using deg(4) by simp
  qed
  have dms: "list_all2 accepts
      ([Sign, Digit, Digit] @ [Digit, Digit] @ [Digit, Digit, Lit CHR ''.'', Digit]) ?dms"
    by (intro list_all2_appendI sgn minutes_seconds1 assms(1) v1)
  have "fullmatch (iau_pattern prefix) (prefix @ ?hms @ ?dms)"
    unfolding fullmatch_def iau_pattern_groups
    by (intro list_all2_appendI list_all2_lit hms dms)
  with eq show ?thesis by blast
qed

lemma float_in_range:
  "float_ge x a \<and> float_le x b \<Longrightarrow> a \<le> 0 \<Longrightarrow>
   a \<le> fval x \<and> fval x \<le> b \<and> (x = Fin (fval x) \<or> (x = Neg_zero \<and> fval x = 0))"
  "float_ge x a \<and> float_lt x b \<Longrightarrow> a \<le> 0 \<Longrightarrow>
   a \<le> fval x \<and> fval x < b \<and> (x = Fin (fval x) \<or> (x = Neg_zero \<and> fval x = 0))"
  by (cases x; simp)+

lemma radec_out_of_range:
  "\<not> (float_ge ra 0 \<and> float_lt ra 360) \<or> \<not> (float_ge dec (- 90) \<and> float_le dec 90) \<Longrightarrow>
   radec_to_iau_name rnd ra dec prefix = Inl ValueError"
  by (auto simp: radec_to_iau_name_def)

lemma fullmatch_length: "fullmatch pat s \<Longrightarrow> length s = length pat"
  by (simp add: fullmatch_def list_all2_lengthD)

lemma spec_pattern_never:
  "fullmatch (iau_pattern prefix) s \<Longrightarrow> \<not> fullmatch (spec_pattern prefix) s"
proof
  assume a: "fullmatch (iau_pattern prefix) s" and b: "fullmatch (spec_pattern prefix) s"
  from a have "length s = length (iau_pattern prefix)" by (rule fullmatch_length)
  then have "length s = length prefix + 18" by (simp add: iau_pattern_def)
  moreover from b have "length s = length (spec_pattern prefix)" by (rule fullmatch_length)
  then have "length s = length prefix + 17" by (simp add: spec_pattern_def)
  ultimately show False by simp
qed

text \<open>
  The identity is a rounding: it is the arithmetic of floats wherever that arithmetic
  is exact.
\<close>

lemma rounding_id: "rounding id"
  by (simp add: rounding_def)

lemma format_examples:
  "format_f False 2 0 False 12 = ''12''"
  "format_f False 2 0 False 0 = ''00''"
  "format_f False 2 0 True 0 = ''-0''"
  "format_f False 5 2 False 0 = ''00.00''"
  "format_f True 3 0 False 0 = ''+00''"
  "format_f False 4 (Suc 0) False 0 = ''00.0''"
  by code_simp+

lemma radec_example:
  assumes "rounding rnd"
  shows "radec_to_iau_name rnd (Fin 180) (Fin 0) ''ZTFJ'' = Inr ''ZTFJ120000.00+000000.0''"
proof -
  have "rnd 2160 = 2160" and "rnd 12 = 12" and "rnd 0 = 0"
    using assms by (simp_all add: rounding_numeral rounding_zero)
  then show ?thesis
    by (simp add: radec_to_iau_name_def Let_def format_examples)
qed

text \<open>
  The negative zero passes the range check of \<^verbatim>\<open>ra\<close>, since \<^verbatim>\<open>0.0 <= -0.0\<close>, and
  the hours are then printed with a minus sign in a field of two characters: the name
  has five digits before its first point.
\<close>

lemma radec_negative_zero:
  assumes "rounding rnd"
  shows "radec_to_iau_name rnd Neg_zero (Fin 0) ''ZTFJ'' = Inr ''ZTFJ-00000.00+000000.0''"
    and "\<not> fullmatch (iau_pattern ''ZTFJ'') ''ZTFJ-00000.00+000000.0''"
proof -
  have "rnd 0 = 0" using assms by (rule rounding_zero)
  then show "radec_to_iau_name rnd Neg_zero (Fin 0) ''ZTFJ'' = Inr ''ZTFJ-00000.00+000000.0''"
    by (simp add: radec_to_iau_name_def Let_def format_examples)
  show "\<not> fullmatch (iau_pattern ''ZTFJ'') ''ZTFJ-00000.00+000000.0''"
    by code_simp
qed

text \<open>
  The specification's regular expression asks for five digits between the sign and the
  point of the declination. The code prints six there, two each for degrees, arc
  minutes and seconds: the specification's own example, the name of the position
  (180, 0), does not match its expression. Every operation on floats is exact at this
  position.
\<close>

theorem radec_to_iau_name_spec_regex_counterexample:
  "radec_to_iau_name id (Fin 180) (Fin 0) ''ZTFJ'' = Inr ''ZTFJ120000.00+000000.0'' \<and>
   \<not> fullmatch (spec_pattern ''ZTFJ'') ''ZTFJ120000.00+000000.0''"
proof -
  have "fullmatch (iau_pattern ''ZTFJ'') ''ZTFJ120000.00+000000.0''"
    by code_simp
  then have "\<not> fullmatch (spec_pattern ''ZTFJ'') ''ZTFJ120000.00+000000.0''"
    by (rule spec_pattern_never)
  with radec_example [OF rounding_id] show ?thesis by simp
qed

text \<open>
  C5, as amended. Whatever the rounding of the float arithmetic: for every float \<open>ra\<close>
  with \<^verbatim>\<open>0.0 <= ra < 360.0\<close> other than the negative zero, every float \<open>dec\<close> with
  \<^verbatim>\<open>-90.0 <= dec <= 90.0\<close> and every prefix, \<^verbatim>\<open>radec_to_iau_name\<close> returns a name
  that matches \<^verbatim>\<open>PREFIX\d{6}\.\d{2}[+-]\d{6}\.\d{1}\<close>, with six digits after the sign;
  the name of (180, 0) with the prefix ZTFJ is \<^verbatim>\<open>ZTFJ120000.00+000000.0\<close>; and for
  \<open>ra\<close> or \<open>dec\<close> outside its range, which includes the infinities and the floats
  that are not numbers, the function raises \<^verbatim>\<open>ValueError\<close>. The function is a
  function of its three arguments alone.
\<close>

theorem radec_to_iau_name_format:
  assumes "rounding rnd"
  shows "(float_ge ra 0 \<and> float_lt ra 360 \<and> ra \<noteq> Neg_zero \<and>
          float_ge dec (- 90) \<and> float_le dec 90 \<longrightarrow>
            (\<exists>s. radec_to_iau_name rnd ra dec prefix = Inr s \<and> fullmatch (iau_pattern prefix) s)) \<and>
         radec_to_iau_name rnd (Fin 180) (Fin 0) ''ZTFJ'' = Inr ''ZTFJ120000.00+000000.0'' \<and>
         (\<not> (float_ge ra 0 \<and> float_lt ra 360) \<or> \<not> (float_ge dec (- 90) \<and> float_le dec 90) \<longrightarrow>
            radec_to_iau_name rnd ra dec prefix = Inl ValueError)"
proof (intro conjI impI)
  assume a: "float_ge ra 0 \<and> float_lt ra 360 \<and> ra \<noteq> Neg_zero \<and>
    float_ge dec (- 90) \<and> float_le dec 90"
  then have "float_ge ra 0 \<and> float_lt ra 360" by simp
  then have r: "0 \<le> fval ra \<and> fval ra < 360 \<and> (ra = Fin (fval ra) \<or> (ra = Neg_zero \<and> fval ra = 0))"
    by (rule float_in_range(2)) simp
  with a have ra: "ra = Fin (fval ra)" by simp
  from a have "float_ge dec (- 90) \<and> float_le dec 90" by simp
  then have d: "- 90 \<le> fval dec \<and> fval dec \<le> 90 \<and>
      (dec = Fin (fval dec) \<or> (dec = Neg_zero \<and> fval dec = 0))"
    by (rule float_in_range(1)) simp
  show "\<exists>s. radec_to_iau_name rnd ra dec prefix = Inr s \<and> fullmatch (iau_pattern prefix) s"
    using assms r d ra by (intro radec_in_range [where r = "fval ra" and d = "fval dec"]) simp_all
next
  show "radec_to_iau_name rnd (Fin 180) (Fin 0) ''ZTFJ'' = Inr ''ZTFJ120000.00+000000.0''"
    using assms by (rule radec_example)
next
  assume "\<not> (float_ge ra 0 \<and> float_lt ra 360) \<or> \<not> (float_ge dec (- 90) \<and> float_le dec 90)"
  then show "radec_to_iau_name rnd ra dec prefix = Inl ValueError"
    by (rule radec_out_of_range)
qed

text \<open>
  The theorem at \<open>ra = 187.5\<close>, \<open>dec = -0.5\<close>, where every operation on floats is exact
  and the degrees of the declination are a negative zero, at \<open>ra = 360\<close>, and at an
  \<open>ra\<close> that is not a number.
\<close>

theorem radec_to_iau_name_format_witness:
  "rounding id \<and>
   radec_to_iau_name id (Fin (375 / 2)) (Fin (- 1 / 2)) ''ZTFJ'' = Inr ''ZTFJ123000.00-003000.0'' \<and>
   fullmatch (iau_pattern ''ZTFJ'') ''ZTFJ123000.00-003000.0'' \<and>
   radec_to_iau_name id (Fin 360) (Fin (- 1 / 2)) ''ZTFJ'' = Inl ValueError \<and>
   radec_to_iau_name id NaN (Fin 0) ''ZTFJ'' = Inl ValueError"
proof -
  note format = radec_to_iau_name_format [OF rounding_id]
  have v: "radec_to_iau_name id (Fin (375 / 2)) (Fin (- 1 / 2)) ''ZTFJ'' =
      Inr ''ZTFJ123000.00-003000.0''"
    by code_simp
  have "float_ge (Fin (375 / 2)) 0 \<and> float_lt (Fin (375 / 2)) 360 \<and> Fin (375 / 2) \<noteq> Neg_zero \<and>
      float_ge (Fin (- 1 / 2)) (- 90) \<and> float_le (Fin (- 1 / 2)) 90"
    by simp
  with format [of "Fin (375 / 2)" "Fin (- 1 / 2)" "''ZTFJ''"]
  have "\<exists>s. radec_to_iau_name id (Fin (375 / 2)) (Fin (- 1 / 2)) ''ZTFJ'' = Inr s \<and>
      fullmatch (iau_pattern ''ZTFJ'') s"
    by blast
  with v have m: "fullmatch (iau_pattern ''ZTFJ'') ''ZTFJ123000.00-003000.0''"
    by simp
  have "\<not> (float_ge (Fin 360) 0 \<and> float_lt (Fin 360) 360)" by simp
  with format [of "Fin 360" "Fin (- 1 / 2)" "''ZTFJ''"]
  have o: "radec_to_iau_name id (Fin 360) (Fin (- 1 / 2)) ''ZTFJ'' = Inl ValueError" by blast
  have "\<not> (float_ge NaN 0 \<and> float_lt NaN 360)" by simp
  with format [of NaN "Fin 0" "''ZTFJ''"]
  have n: "radec_to_iau_name id NaN (Fin 0) ''ZTFJ'' = Inl ValueError" by blast
  from rounding_id v m o n show ?thesis by (intro conjI)
qed

section \<open>Properties of \<^verbatim>\<open>make_photometry\<close>\<close>

lemma concat_make_dfs:
  "concat (make_dfs lcs) = concat (map (\<lambda>lc. map (\<lambda>e. (e, lc_filter lc)) (lc_data lc)) lcs)"
  by (induction lcs) auto

lemma make_dfs_nonempty:
  "lc \<in> set lcs \<Longrightarrow> lc_data lc \<noteq> [] \<Longrightarrow> make_dfs lcs \<noteq> []"
  by (induction lcs) auto

lemma make_dfs_empty:
  "(\<And>lc. lc \<in> set lcs \<Longrightarrow> lc_data lc = []) \<Longrightarrow> make_dfs lcs = []"
  by (induction lcs) auto

lemma apply_rows_Inr:
  "(\<And>x. x \<in> set xs \<Longrightarrow> f x = Inr (g x)) \<Longrightarrow> apply_rows f xs = Inr (map g xs)"
  by (induction xs) auto

lemma make_row_known:
  "snd p \<in> {1, 2, 3} \<Longrightarrow> make_row f32 p = Inr (row_of f32 p)"
  by (cases p) (auto simp: make_row_def row_of_def ztf_filters_def)

lemma filter_row_of:
  "filter (\<lambda>r. catflags r = 0) (map (row_of f32) xs) =
   map (row_of f32) (filter (\<lambda>p. catflags (fst p) = 0) xs)"
  by (induction xs) (simp_all add: row_of_def)

lemma filter_tagged:
  "filter (\<lambda>p. catflags (fst p) = 0)
     (concat (map (\<lambda>lc. map (\<lambda>e. (e, lc_filter lc)) (lc_data lc)) lcs)) =
   concat (map (\<lambda>lc. map (\<lambda>e. (e, lc_filter lc)) (filter (\<lambda>e. catflags e = 0) (lc_data lc))) lcs)"
  by (induction lcs) (simp_all add: filter_map o_def)

text \<open>
  What \<open>make_photometry\<close> returns with \<^verbatim>\<open>drop_flagged=True\<close>, as soon as some light
  curve has data and every light curve with data has a filter code of the table.
\<close>

lemma make_photometry_rows:
  assumes some: "\<exists>lc \<in> set lcs. lc_data lc \<noteq> []"
    and known: "\<forall>lc \<in> set lcs. lc_data lc \<noteq> [] \<longrightarrow> lc_filter lc \<in> {1, 2, 3}"
  shows "make_photometry f32 lcs True =
     Inr (map (row_of f32)
       (concat (map (\<lambda>lc. map (\<lambda>e. (e, lc_filter lc)) (filter (\<lambda>e. catflags e = 0) (lc_data lc))) lcs)))"
proof -
  let ?df = "concat (map (\<lambda>lc. map (\<lambda>e. (e, lc_filter lc)) (lc_data lc)) lcs)"
  from some have ne: "make_dfs lcs \<noteq> []" using make_dfs_nonempty by blast
  have "\<And>p. p \<in> set ?df \<Longrightarrow> snd p \<in> {1, 2, 3}"
    using known by auto
  then have "\<And>p. p \<in> set ?df \<Longrightarrow> make_row f32 p = Inr (row_of f32 p)"
    by (rule make_row_known)
  then have ar: "apply_rows (make_row f32) ?df = Inr (map (row_of f32) ?df)"
    by (rule apply_rows_Inr)
  have pc: "pd_concat (make_dfs lcs) = Inr ?df"
    using ne by (simp add: pd_concat_def concat_make_dfs)
  show ?thesis
    unfolding make_photometry_def pc sum.case ar if_True filter_row_of filter_tagged ..
qed

lemma row_of_fields:
  assumes "x \<in> {1, 2, 3}" and "catflags e = 0"
  shows "mjd (row_of f32 (e, x)) = hjd e - 2400000.5 \<and>
     ztf_filter (row_of f32 (e, x)) =
       (if x = 1 then ''ztfg'' else if x = 2 then ''ztfr'' else ''ztfi'') \<and>
     fid (row_of f32 (e, x)) = x \<and> hjd (row_of f32 (e, x)) = hjd e \<and>
     mag (row_of f32 (e, x)) = f32 (mag e) \<and> magerr (row_of f32 (e, x)) = f32 (magerr e) \<and>
     catflags (row_of f32 (e, x)) = 0 \<and> programid (row_of f32 (e, x)) = programid e \<and>
     ep_ra (row_of f32 (e, x)) = ep_ra e \<and> ep_dec (row_of f32 (e, x)) = ep_dec e"
proof -
  from assms(1) have "x = 1 \<or> x = 2 \<or> x = 3" by simp
  then have "ztf_filter (row_of f32 (e, x)) =
      (if x = 1 then ''ztfg'' else if x = 2 then ''ztfr'' else ''ztfi'')"
    by (elim disjE) (simp_all add: row_of_def ztf_filters_def)
  then show ?thesis using assms(2) by (simp add: row_of_def)
qed

text \<open>
  C4. For a non-empty list of light curves, each with a filter code among 1, 2, 3 and a
  non-empty \<^verbatim>\<open>data\<close> array, \<^verbatim>\<open>make_photometry\<close> with \<^verbatim>\<open>drop_flagged=True\<close> returns
  a frame whose rows are, one for one and in the same order, the epochs with
  \<^verbatim>\<open>catflags = 0\<close> of the first light curve, then those of the second, and so on:
  nothing is reordered, merged or dropped beyond the flagged epochs. Each row has
  \<^verbatim>\<open>mjd = hjd - 2400000.5\<close>, the filter name of the table 1 to ztfg, 2 to ztfr, 3
  to ztfi, and the epoch's other columns (magnitudes narrowed by \<open>f32\<close>).
\<close>

theorem make_photometry_drop_flagged:
  assumes "light_curves \<noteq> []"
    and "\<forall>lc \<in> set light_curves. lc_filter lc \<in> {1, 2, 3} \<and> lc_data lc \<noteq> []"
  shows "\<exists>rows. make_photometry f32 light_curves True = Inr rows \<and>
     list_all2
       (\<lambda>r (e, x).
          mjd r = hjd e - 2400000.5 \<and>
          ztf_filter r = (if x = 1 then ''ztfg'' else if x = 2 then ''ztfr'' else ''ztfi'') \<and>
          fid r = x \<and> hjd r = hjd e \<and> mag r = f32 (mag e) \<and> magerr r = f32 (magerr e) \<and>
          catflags r = 0 \<and> programid r = programid e \<and> ep_ra r = ep_ra e \<and> ep_dec r = ep_dec e)
       rows
       (concat (map (\<lambda>lc. map (\<lambda>e. (e, lc_filter lc)) (filter (\<lambda>e. catflags e = 0) (lc_data lc)))
          light_curves))"
proof -
  let ?exp = "concat (map (\<lambda>lc. map (\<lambda>e. (e, lc_filter lc)) (filter (\<lambda>e. catflags e = 0) (lc_data lc)))
          light_curves)"
  let ?P = "\<lambda>r (e, x).
          mjd r = hjd e - 2400000.5 \<and>
          ztf_filter r = (if x = 1 then ''ztfg'' else if x = 2 then ''ztfr'' else ''ztfi'') \<and>
          fid r = x \<and> hjd r = hjd e \<and> mag r = f32 (mag e) \<and> magerr r = f32 (magerr e) \<and>
          catflags r = 0 \<and> programid r = programid e \<and> ep_ra r = ep_ra e \<and> ep_dec r = ep_dec e"
  from assms obtain lc where "lc \<in> set light_curves" "lc_data lc \<noteq> []"
    by (cases light_curves) auto
  then have some: "\<exists>lc \<in> set light_curves. lc_data lc \<noteq> []" by blast
  from assms(2) have known: "\<forall>lc \<in> set light_curves. lc_data lc \<noteq> [] \<longrightarrow> lc_filter lc \<in> {1, 2, 3}"
    by blast
  have eq: "make_photometry f32 light_curves True = Inr (map (row_of f32) ?exp)"
    by (rule make_photometry_rows [OF some known])
  have mem: "\<And>e x. (e, x) \<in> set ?exp \<Longrightarrow> x \<in> {1, 2, 3} \<and> catflags e = 0"
    using assms(2) by auto
  have pt: "\<forall>p \<in> set ?exp. ?P (row_of f32 p) p"
  proof (rule ballI)
    fix p assume p: "p \<in> set ?exp"
    obtain e x where px: "p = (e, x)" by (cases p)
    with p mem have h: "x \<in> {1, 2, 3}" "catflags e = 0" by blast+
    show "?P (row_of f32 p) p"
      unfolding px prod.case by (rule row_of_fields [OF h])
  qed
  have l2: "list_all2 ?P (map (row_of f32) ?exp) ?exp"
    unfolding list_all2_map1 list_all2_same by (rule pt)
  show ?thesis
    by (rule exI [of _ "map (row_of f32) ?exp"], rule conjI [OF eq l2])
qed

lemma example_expected:
  "concat (map (\<lambda>lc. map (\<lambda>e. (e, lc_filter lc)) (filter (\<lambda>e. catflags e = 0) (lc_data lc)))
     example_light_curves) =
   [(lc_data (example_light_curves ! 0) ! 0, 2), (lc_data (example_light_curves ! 0) ! 2, 2),
    (lc_data (example_light_curves ! 1) ! 0, 1), (lc_data (example_light_curves ! 1) ! 1, 1),
    (lc_data (example_light_curves ! 1) ! 2, 1)]"
  by (simp add: example_light_curves_def)

text \<open>
  The theorem at the two example light curves: five rows come back, for the five
  unflagged epochs, with the stated dates and filter names.
\<close>

theorem make_photometry_drop_flagged_witness:
  "\<exists>rows. make_photometry id example_light_curves True = Inr rows \<and>
     map mjd rows = [58000, 58002, 58003, 58004, 58005] \<and>
     map ztf_filter rows = [''ztfr'', ''ztfr'', ''ztfg'', ''ztfg'', ''ztfg'']"
proof -
  let ?exp = "concat (map (\<lambda>lc. map (\<lambda>e. (e, lc_filter lc)) (filter (\<lambda>e. catflags e = 0) (lc_data lc)))
          example_light_curves)"
  let ?P = "\<lambda>r (e, x).
          mjd r = hjd e - 2400000.5 \<and>
          ztf_filter r = (if x = 1 then ''ztfg'' else if x = 2 then ''ztfr'' else ''ztfi'') \<and>
          fid r = x \<and> hjd r = hjd e \<and> mag r = id (mag e) \<and> magerr r = id (magerr e) \<and>
          catflags r = 0 \<and> programid r = programid e \<and> ep_ra r = ep_ra e \<and> ep_dec r = ep_dec e"
  have ne: "example_light_curves \<noteq> []"
    by (simp add: example_light_curves_def)
  have ok: "\<forall>lc \<in> set example_light_curves. lc_filter lc \<in> {1, 2, 3} \<and> lc_data lc \<noteq> []"
    by (simp add: example_light_curves_def)
  have "\<exists>rows. make_photometry id example_light_curves True = Inr rows \<and> list_all2 ?P rows ?exp"
    by (rule make_photometry_drop_flagged [OF ne ok])
  then obtain rows where r: "make_photometry id example_light_curves True = Inr rows"
    and l: "list_all2 ?P rows ?exp"
    by (elim exE conjE)
  have w: "\<And>r p. ?P r p \<Longrightarrow> mjd r = hjd (fst p) - 2400000.5 \<and>
          ztf_filter r = (if snd p = 1 then ''ztfg'' else if snd p = 2 then ''ztfr'' else ''ztfi'')"
    by (simp add: case_prod_beta)
  have "list_all2 (\<lambda>r p. mjd r = hjd (fst p) - 2400000.5 \<and>
          ztf_filter r = (if snd p = 1 then ''ztfg'' else if snd p = 2 then ''ztfr'' else ''ztfi''))
       rows ?exp"
    by (rule list_all2_mono [OF l w])
  then have "map mjd rows = [58000, 58002, 58003, 58004, 58005] \<and>
     map ztf_filter rows = [''ztfr'', ''ztfr'', ''ztfg'', ''ztfg'', ''ztfg'']"
    unfolding example_expected
    by (auto simp: list_all2_Cons2 example_light_curves_def)
  then show ?thesis
    using r by (intro exI [of _ rows] conjI) simp_all
qed

section \<open>Properties of the program ids and of the stream ids\<close>

lemma update_program_ids_sound:
  "update_program_ids sel ss = Inr S \<Longrightarrow>
   sel \<subseteq> S \<and>
   (\<forall>p \<in> S. p \<notin> sel \<longrightarrow>
      (\<exists>s \<in> set ss. contains ''ztf'' (lower (stream_name s)) \<and>
         (\<exists>a. altdata s = Some a \<and> p \<in> set (dict_get a ''selector'' []))))"
proof (induction ss arbitrary: sel)
  case Nil
  then show ?case by simp
next
  case (Cons s ss)
  show ?case
  proof (cases "contains ''ztf'' (lower (stream_name s))")
    case False
    with Cons.prems have "update_program_ids sel ss = Inr S" by simp
    from Cons.IH [OF this] show ?thesis by auto
  next
    case True
    with Cons.prems obtain a where a: "altdata s = Some a"
      and r: "update_program_ids (sel \<union> set (dict_get a ''selector'' [])) ss = Inr S"
      by (auto split: option.splits)
    from Cons.IH [OF r] True a show ?thesis by auto
  qed
qed

lemma update_program_ids_exact:
  "update_program_ids sel ss = Inr S \<Longrightarrow>
   S = sel \<union> (\<Union>s \<in> {s \<in> set ss. contains ''ztf'' (lower (stream_name s))}.
                 set (dict_get (the (altdata s)) ''selector'' []))"
proof (induction ss arbitrary: sel)
  case Nil
  then show ?case by simp
next
  case (Cons s ss)
  show ?case
  proof (cases "contains ''ztf'' (lower (stream_name s))")
    case False
    with Cons.prems have "update_program_ids sel ss = Inr S" by simp
    from Cons.IH [OF this] False show ?thesis by auto
  next
    case True
    with Cons.prems obtain a where a: "altdata s = Some a"
      and r: "update_program_ids (sel \<union> set (dict_get a ''selector'' [])) ss = Inr S"
      by (auto split: option.splits)
    from Cons.IH [OF r] True a show ?thesis by auto
  qed
qed

lemma update_program_ids_total:
  "(\<And>s. s \<in> set ss \<Longrightarrow> contains ''ztf'' (lower (stream_name s)) \<Longrightarrow> altdata s \<noteq> None) \<Longrightarrow>
   \<exists>S. update_program_ids sel ss = Inr S"
proof (induction ss arbitrary: sel)
  case Nil
  then show ?case by simp
next
  case (Cons s ss)
  have ih: "\<And>sel'. \<exists>S. update_program_ids sel' ss = Inr S"
    using Cons.IH Cons.prems by simp
  show ?case
  proof (cases "contains ''ztf'' (lower (stream_name s))")
    case False
    then show ?thesis using ih by simp
  next
    case True
    with Cons.prems [of s] obtain a where "altdata s = Some a" by auto
    with True show ?thesis using ih by simp
  qed
qed

lemma update_stream_ids_lookup:
  "update_stream_ids m ss p =
     (if p = 1 then (case last_id_named ''ZTF Public'' ss of None \<Rightarrow> m 1 | Some i \<Rightarrow> Some i)
      else if p = 2 then
        (case last_id_named ''ZTF Public+Partnership'' ss of None \<Rightarrow> m 2 | Some i \<Rightarrow> Some i)
      else if p = 0 \<or> p = 3 then
        (case last_id_named ''ZTF Public+Partnership+Caltech'' ss of None \<Rightarrow> m p | Some i \<Rightarrow> Some i)
      else m p)"
proof (induction ss arbitrary: m)
  case Nil
  then show ?case by (simp add: last_id_named_def)
next
  case (Cons s ss)
  show ?case
    by (simp add: Cons.IH Let_def last_id_named_def split: list.splits)
qed

lemma ztf_program_id_to_stream_id_lookup:
  "ztf_program_id_to_stream_id streams p =
     (if p = 1 then last_id_named ''ZTF Public'' streams
      else if p = 2 then last_id_named ''ZTF Public+Partnership'' streams
      else if p = 0 \<or> p = 3 then last_id_named ''ZTF Public+Partnership+Caltech'' streams
      else None)"
  unfolding ztf_program_id_to_stream_id_def update_stream_ids_lookup
  by (simp split: option.splits)

lemma stream_ids_column_unmapped:
  "r \<in> set df \<Longrightarrow> m (programid r) = None \<Longrightarrow> stream_ids_column m df = Inl KeyError"
  unfolding stream_ids_column_def
  by (induction df) (auto split: sum.splits option.splits)

lemma stream_ids_column_mapped:
  "(\<And>r. r \<in> set df \<Longrightarrow> m (programid r) \<noteq> None) \<Longrightarrow>
   stream_ids_column m df = Inr (map (\<lambda>r. the (m (programid r))) df)"
  unfolding stream_ids_column_def
  by (rule apply_rows_Inr) (fastforce split: option.splits)

lemma program_id_selector_accessible:
  "program_id_selector streams = Inr S \<Longrightarrow> accessible streams S"
proof -
  assume a: "program_id_selector streams = Inr S"
  then have r: "update_program_ids {1} streams = Inr S" by (simp add: program_id_selector_def)
  from update_program_ids_sound [OF r] show ?thesis
    unfolding accessible_def contains_ztf_iff by auto
qed

section \<open>Properties of the position check\<close>

lemma py_all_not_null: "py_all vs \<Longrightarrow> JNull \<notin> set vs"
  unfolding py_all_def list_all_iff by auto

lemma missing_parameter_first:
  "missing_parameter ra dec radius radius_units =
     map_option (\<lambda>n. Error (Missing_required_parameter n) 400)
       (first_missing ra dec radius radius_units)"
  by (simp add: missing_parameter_def first_missing_def)

lemma check_position_missing:
  assumes "first_missing ra dec radius radius_units = Some n"
    and "py_any [ra, dec, radius, radius_units]"
  shows "check_position float_of_str check_ranges ra dec radius radius_units =
     Answered (Error (Missing_required_parameter n) 400)"
proof -
  from assms(1) have "JNull \<in> set [ra, dec, radius, radius_units]"
    by (auto simp: first_missing_def split: if_splits)
  then have "\<not> py_all [ra, dec, radius, radius_units]"
    using py_all_not_null by blast
  with assms show ?thesis
    by (simp add: check_position_def missing_parameter_first)
qed




lemma check_position_falsy:
  assumes "JNull \<notin> set [ra, dec, radius, radius_units]"
    and "\<not> py_all [ra, dec, radius, radius_units]"
  shows "check_position float_of_str check_ranges ra dec radius radius_units = No_search"
proof -
  from assms(1) have "ra \<noteq> JNull" "dec \<noteq> JNull" "radius \<noteq> JNull" "radius_units \<noteq> JNull"
    by auto
  then have mp: "missing_parameter ra dec radius radius_units = None"
    by (simp add: missing_parameter_def)
  show ?thesis
    using assms(2) by (simp add: check_position_def Let_def mp)
qed

section \<open>The position check in the handlers\<close>

lemma CrossMatchHandler_get_position:
  assumes "gloria = Some g" and "r_names (g Info) = Some names"
    and "crossmatch_catalogs names \<noteq> []"
  shows "CrossMatchHandler_get float_of_str gloria args =
     (case check_position float_of_str True
             (query_argument (arg_ra args)) (query_argument (arg_dec args))
             (query_argument (arg_radius args)) (query_argument (arg_radius_units args)) of
        Answered r \<Rightarrow> (r, [Query Info])
      | No_search \<Rightarrow> (Returned_None, [Query Info])
      | Search ra dec radius radius_units \<Rightarrow>
          CrossMatchHandler_get float_of_str gloria args)"
  using assms
  by (simp add: CrossMatchHandler_get_def Let_def split: position.splits)

lemma ArchiveHandler_get_position:
  assumes "gloria = Some g" and "r_names (g Info) = Some names"
    and "program_id_selector streams = Inr S"
    and "arg_catalog args = Some c" and "c \<in> set (light_curve_catalogs names)"
  shows "ArchiveHandler_get float_of_str gloria streams args =
     (case check_position float_of_str False
             (query_argument (arg_ra args)) (query_argument (arg_dec args))
             (query_argument (arg_radius args)) (query_argument (arg_radius_units args)) of
        Answered r \<Rightarrow> (r, [Query Info])
      | No_search \<Rightarrow> (Returned_None, [Query Info])
      | Search ra dec radius radius_units \<Rightarrow>
          light_curves_of_cone g c S ra dec radius radius_units)"
  using assms
  by (simp add: ArchiveHandler_get_def Let_def split: position.splits)

lemma ScopeFeaturesHandler_post_position:
  assumes "gloria = Some g" and "r_names (g Info) = Some names"
    and "map_of body ''id'' = Some obj_id" and "map_of body ''ra'' = Some ra"
    and "map_of body ''dec'' = Some dec"
    and "dict_get body ''catalog'' (JStr ''ZTF_source_features_DR5'') \<in>
           set (map JStr (feature_catalogs names))"
  shows "ScopeFeaturesHandler_post float_of_str gloria w store body =
     (case check_position float_of_str False ra dec
             (dict_get body ''radius'' (JNum (Fin 2)))
             (dict_get body ''radius_units'' (JStr ''arcsec'')) of
        Answered r \<Rightarrow> (r, [Query Info], store)
      | No_search \<Rightarrow> (Returned_None, [Query Info], store)
      | Search ra' dec' radius' radius_units' \<Rightarrow>
          ScopeFeaturesHandler_post float_of_str gloria w store body)"
  using assms
  by (simp add: ScopeFeaturesHandler_post_def Let_def split: position.splits)






section \<open>Properties of \<^verbatim>\<open>ArchiveHandler.post\<close>\<close>

lemma snd_try_finally:
  "snd (try_finally w t tr p) = tr @ map Step (snd p) @ [Delete_token t]"
  by (simp add: try_finally_def Let_def split: sum.splits flow.splits)

lemma snd_with_token:
  "snd (with_token w t tr p) =
     (if pw_session w = Inr () \<and> pw_current_user w = Inr ()
      then tr @ [Create_token t] @ map Step (snd p) @ [Delete_token t]
      else tr @ [Create_token t])"
  by (simp add: with_token_def snd_try_finally split: sum.splits)

lemma with_token_before_try:
  assumes "pw_session w = Inl e \<or> (pw_session w = Inr () \<and> pw_current_user w = Inl e)"
  shows "with_token w t tr p = (Raised e, tr @ [Create_token t])"
  using assms by (auto simp: with_token_def)

lemma ArchiveHandler_post_trace:
  "snd (ArchiveHandler_post f32 gloria w body) = [] \<or>
   (\<exists>q. snd (ArchiveHandler_post f32 gloria w body) = [Query q]) \<or>
   (\<exists>q t. pw_create_token w = Inr t \<and>
      snd (ArchiveHandler_post f32 gloria w body) =
        (if pw_session w = Inr () \<and> pw_current_user w = Inr ()
         then [Query q] @ [Create_token t] @
              map Step (snd (post_pipeline f32 w (b_obj_id body) (b_group_ids body)
                               (r_light_curves (the gloria q)))) @
              [Delete_token t]
         else [Query q] @ [Create_token t]))"
  unfolding ArchiveHandler_post_def
  by (simp add: Let_def snd_with_token split: option.splits sum.splits)

lemma count_list_append: "count_list (xs @ ys) x = count_list xs x + count_list ys x"
  by (induction xs) simp_all

lemma count_list_steps: "count_list (map Step steps) (Delete_token t) = 0"
  by (induction steps) simp_all

text \<open>
  Once the \<^verbatim>\<open>try\<close> statement is entered, that is when \<^verbatim>\<open>self.Session()\<close> and
  \<^verbatim>\<open>self.current_user\<close> have returned, the trace of a request that has minted the
  token \<open>t\<close> is the aggregation query, the minting of \<open>t\<close>, the steps of the pipeline and,
  last of all before the handler returns, one call \<^verbatim>\<open>delete_token(t)\<close>. This holds
  for every answer of every other collaborator, so for every way the pipeline ends: by
  running to its end, by a \<^verbatim>\<open>return self.error(...)\<close>, or by an exception.
\<close>

lemma token_revoked_in_try:
  assumes "Create_token t \<in> set (snd (ArchiveHandler_post f32 gloria w body))"
    and "pw_session w = Inr ()" and "pw_current_user w = Inr ()"
  shows "\<exists>q steps.
      snd (ArchiveHandler_post f32 gloria w body) =
        [Query q, Create_token t] @ map Step steps @ [Delete_token t] \<and>
      count_list (snd (ArchiveHandler_post f32 gloria w body)) (Delete_token t) = 1 \<and>
      last (snd (ArchiveHandler_post f32 gloria w body)) = Delete_token t"
proof -
  let ?tr = "snd (ArchiveHandler_post f32 gloria w body)"
  from ArchiveHandler_post_trace [of f32 gloria w body] assms(2,3)
  consider "?tr = []" | q where "?tr = [Query q]"
    | q t' steps where "?tr = [Query q] @ [Create_token t'] @ map Step steps @ [Delete_token t']"
    by auto
  then show ?thesis
  proof cases
    case 1
    with assms(1) show ?thesis by simp
  next
    case 2
    with assms(1) show ?thesis by simp
  next
    case 3
    with assms(1) have "t' = t" by auto
    with 3 have eq: "?tr = [Query q, Create_token t] @ map Step steps @ [Delete_token t]"
      by simp
    have "count_list ?tr (Delete_token t) = 1"
      unfolding eq by (simp add: count_list_append count_list_steps)
    moreover have "last ?tr = Delete_token t"
      unfolding eq by simp
    ultimately show ?thesis using eq by blast
  qed
qed

text \<open>
  A request that has minted the token \<open>t\<close> and in which \<^verbatim>\<open>self.Session()\<close> or
  \<^verbatim>\<open>self.current_user\<close> raises ends with that exception, and \<^verbatim>\<open>delete_token\<close> is
  not called: the minting of \<open>t\<close> is the last event of its trace.
\<close>

lemma token_kept_before_try:
  assumes "Create_token t \<in> set (snd (ArchiveHandler_post f32 gloria w body))"
    and "pw_session w \<noteq> Inr () \<or> pw_current_user w \<noteq> Inr ()"
  shows "\<exists>q. snd (ArchiveHandler_post f32 gloria w body) = [Query q, Create_token t] \<and>
      count_list (snd (ArchiveHandler_post f32 gloria w body)) (Delete_token t) = 0"
proof -
  let ?tr = "snd (ArchiveHandler_post f32 gloria w body)"
  from ArchiveHandler_post_trace [of f32 gloria w body] assms(2)
  consider "?tr = []" | q where "?tr = [Query q]"
    | q t' where "?tr = [Query q] @ [Create_token t']"
    by auto
  then show ?thesis
  proof cases
    case 1
    with assms(1) show ?thesis by simp
  next
    case 2
    with assms(1) show ?thesis by simp
  next
    case 3
    with assms(1) have "t' = t" by auto
    with 3 show ?thesis by simp
  qed
qed

text \<open>
  C1. The handler does not revoke the token on every exit path that follows
  \<^verbatim>\<open>create_token\<close>. In the request of the example, whose collaborators otherwise all
  succeed, let \<^verbatim>\<open>self.current_user\<close> (line 864) or the entry into
  \<^verbatim>\<open>self.Session()\<close> (line 863) raise: the handler ends with that exception, the token
  7 has been minted, and \<^verbatim>\<open>delete_token\<close> has not been called. The two lines stand
  after \<^verbatim>\<open>create_token\<close> and before the \<^verbatim>\<open>try\<close> statement whose \<^verbatim>\<open>finally\<close>
  clause, under the comment "always attempt deleting the temporary token", revokes
  the token. In the same request without that exception the token is revoked once.
\<close>

theorem token_not_revoked_before_try:
  "ArchiveHandler_post id (Some example_gloria)
     (example_world \<lparr> pw_current_user := Inl CollaboratorError \<rparr>) example_body =
     (Raised CollaboratorError,
      [Query (Aggregate ''ZTF_sources_20210401'' [101, 102] {1, 2}), Create_token 7]) \<and>
   ArchiveHandler_post id (Some example_gloria)
     (example_world \<lparr> pw_session := Inl CollaboratorError \<rparr>) example_body =
     (Raised CollaboratorError,
      [Query (Aggregate ''ZTF_sources_20210401'' [101, 102] {1, 2}), Create_token 7]) \<and>
   count_list (snd (ArchiveHandler_post id (Some example_gloria)
     (example_world \<lparr> pw_current_user := Inl CollaboratorError \<rparr>) example_body))
     (Delete_token 7) = 0 \<and>
   fst (ArchiveHandler_post id (Some example_gloria) example_world example_body) =
     Success (Obj_id ''ZTFJ120000.00+000000.0'') \<and>
   count_list (snd (ArchiveHandler_post id (Some example_gloria) example_world example_body))
     (Delete_token 7) = 1"
proof -
  let ?user = "ArchiveHandler_post id (Some example_gloria)
     (example_world \<lparr> pw_current_user := Inl CollaboratorError \<rparr>) example_body"
  let ?session = "ArchiveHandler_post id (Some example_gloria)
     (example_world \<lparr> pw_session := Inl CollaboratorError \<rparr>) example_body"
  let ?ok = "ArchiveHandler_post id (Some example_gloria) example_world example_body"
  let ?tr = "[Query (Aggregate ''ZTF_sources_20210401'' [101, 102] {1, 2}), Create_token 7]"
  have u1: "fst ?user = Raised CollaboratorError" by code_simp
  have u2: "snd ?user = ?tr" by code_simp
  have s1: "fst ?session = Raised CollaboratorError" by code_simp
  have s2: "snd ?session = ?tr" by code_simp
  have u: "?user = (Raised CollaboratorError, ?tr)"
    using u1 u2 by (simp add: prod_eq_iff)
  have s: "?session = (Raised CollaboratorError, ?tr)"
    using s1 s2 by (simp add: prod_eq_iff)
  have c: "count_list (snd ?user) (Delete_token 7) = 0"
    unfolding u2 by simp
  have r: "fst ?ok = Success (Obj_id ''ZTFJ120000.00+000000.0'')" by code_simp
  have m: "Create_token 7 \<in> set (snd ?ok)" by code_simp
  have "pw_session example_world = Inr ()" and "pw_current_user example_world = Inr ()"
    by (simp_all add: example_world_def)
  with token_revoked_in_try [OF m]
  have k: "count_list (snd ?ok) (Delete_token 7) = 1" by blast
  from u s c r k show ?thesis by (intro conjI)
qed

lemma post_photometry_unmapped:
  assumes "make_photometry f32 light_curves True = Inr df"
    and "pw_ztf_instrument w = Inr (Some i)"
    and "pw_all_streams w = Inr (Some streams)"
    and "r \<in> set df"
    and "ztf_program_id_to_stream_id streams (programid r) = None"
  shows "post_photometry f32 w obj_id light_curves steps = (Raise KeyError, steps)"
proof -
  have "stream_ids_column (ztf_program_id_to_stream_id streams) df = Inl KeyError"
    using assms(4,5) by (rule stream_ids_column_unmapped)
  then show ?thesis
    using assms(1-3) by (simp add: post_photometry_def)
qed

text \<open>
  C3. The dictionary from program ids to stream ids that \<^verbatim>\<open>ArchiveHandler.post\<close>
  builds has, under the program id 1, the id of the stream named exactly "ZTF Public",
  under 2 that of "ZTF Public+Partnership", under both 0 and 3 that of
  "ZTF Public+Partnership+Caltech" (the last stream of the table with the name, should
  there be several), and no other key. Applied to a frame of photometry with a row
  whose program id is not a key, the lookup raises \<^verbatim>\<open>KeyError\<close>, the code's form of
  the specification's fatal schema error: the pipeline ends with that exception at
  this step, and \<^verbatim>\<open>add_external_photometry\<close> is not called.
\<close>

theorem program_id_to_stream_id:
  "ztf_program_id_to_stream_id streams p =
     (if p = 1 then last_id_named ''ZTF Public'' streams
      else if p = 2 then last_id_named ''ZTF Public+Partnership'' streams
      else if p = 0 \<or> p = 3 then last_id_named ''ZTF Public+Partnership+Caltech'' streams
      else None) \<and>
   (r \<in> set df \<and> ztf_program_id_to_stream_id streams (programid r) = None \<longrightarrow>
      stream_ids_column (ztf_program_id_to_stream_id streams) df = Inl KeyError) \<and>
   (make_photometry f32 light_curves True = Inr df \<and> pw_ztf_instrument w = Inr (Some i) \<and>
    pw_all_streams w = Inr (Some streams) \<and> r \<in> set df \<and>
    ztf_program_id_to_stream_id streams (programid r) = None \<longrightarrow>
      post_photometry f32 w obj_id light_curves steps = (Raise KeyError, steps))"
  using ztf_program_id_to_stream_id_lookup [of streams p]
    stream_ids_column_unmapped [of r df "ztf_program_id_to_stream_id streams"]
    post_photometry_unmapped [of f32 light_curves df w i streams r obj_id steps]
  by blast

text \<open>
  The theorem on the table of four streams, where the keys 0 to 3 are found and 4 is
  not, and on the example light curves with a table that has the public stream alone.
\<close>

theorem program_id_to_stream_id_witness:
  "map (ztf_program_id_to_stream_id example_stream_table) [0, 1, 2, 3, 4] =
     [Some 3, Some 1, Some 2, Some 3, None] \<and>
   stream_ids_column (ztf_program_id_to_stream_id (take 1 example_stream_table))
     (projr (make_photometry id example_light_curves True)) = Inl KeyError \<and>
   post_photometry id (example_world \<lparr> pw_all_streams := Inr (Some (take 1 example_stream_table)) \<rparr>)
     ''ZTFJ120000.00+000000.0'' example_light_curves [] = (Raise KeyError, [])"
proof -
  let ?t = "take 1 example_stream_table"
  let ?df = "projr (make_photometry id example_light_curves True)"
  let ?w = "example_world \<lparr> pw_all_streams := Inr (Some ?t) \<rparr>"
  have l1: "last_id_named ''ZTF Public'' example_stream_table = Some 1" by code_simp
  have l2: "last_id_named ''ZTF Public+Partnership'' example_stream_table = Some 2" by code_simp
  have l3: "last_id_named ''ZTF Public+Partnership+Caltech'' example_stream_table = Some 3"
    by code_simp
  have m0: "ztf_program_id_to_stream_id example_stream_table 0 = Some 3"
    using program_id_to_stream_id [of example_stream_table 0] l3 by simp
  have m1: "ztf_program_id_to_stream_id example_stream_table 1 = Some 1"
    using program_id_to_stream_id [of example_stream_table 1] l1 by simp
  have m2: "ztf_program_id_to_stream_id example_stream_table 2 = Some 2"
    using program_id_to_stream_id [of example_stream_table 2] l2 by simp
  have m3: "ztf_program_id_to_stream_id example_stream_table 3 = Some 3"
    using program_id_to_stream_id [of example_stream_table 3] l3 by simp
  have m4: "ztf_program_id_to_stream_id example_stream_table 4 = None"
    using program_id_to_stream_id [of example_stream_table 4] by simp
  have df: "make_photometry id example_light_curves True = Inr ?df" by code_simp
  have r: "last ?df \<in> set ?df" by code_simp
  have pid: "programid (last ?df) = 2" by code_simp
  have "last_id_named ''ZTF Public+Partnership'' ?t = None" by code_simp
  with program_id_to_stream_id [of ?t 2] pid
  have u: "ztf_program_id_to_stream_id ?t (programid (last ?df)) = None" by simp
  have i: "pw_ztf_instrument ?w = Inr (Some 1)" by code_simp
  have s: "pw_all_streams ?w = Inr (Some ?t)" by code_simp
  from program_id_to_stream_id [of ?t 0 "last ?df" ?df id example_light_curves ?w 1
      "''ZTFJ120000.00+000000.0''" "[]"] df r u i s
  have "stream_ids_column (ztf_program_id_to_stream_id ?t) ?df = Inl KeyError \<and>
    post_photometry id ?w ''ZTFJ120000.00+000000.0'' example_light_curves [] = (Raise KeyError, [])"
    by blast
  with m0 m1 m2 m3 m4 show ?thesis by simp
qed

section \<open>\<^verbatim>\<open>make_photometry\<close> without data\<close>

lemma make_dfs_eq_Nil: "make_dfs lcs = [] \<longleftrightarrow> (\<forall>lc \<in> set lcs. lc_data lc = [])"
  by (induction lcs) auto

lemma apply_rows_Inl: "apply_rows f xs = Inl e \<Longrightarrow> \<exists>x \<in> set xs. f x = Inl e"
  by (induction xs) (auto split: sum.splits)

lemma make_row_Inl: "make_row f32 p = Inl e \<Longrightarrow> e = KeyError"
  by (cases p) (simp add: make_row_def split: option.splits)

lemma apply_rows_make_row: "apply_rows (make_row f32) df \<noteq> Inl ValueError"
proof
  assume "apply_rows (make_row f32) df = Inl ValueError"
  then obtain p where "make_row f32 p = Inl ValueError" using apply_rows_Inl by blast
  then have "ValueError = KeyError" by (rule make_row_Inl)
  then show False by simp
qed

lemma make_photometry_ValueError:
  "make_photometry f32 light_curves drop_flagged = Inl ValueError \<longleftrightarrow>
   (\<forall>lc \<in> set light_curves. lc_data lc = [])"
proof (cases "make_dfs light_curves = []")
  case True
  then have "make_photometry f32 light_curves drop_flagged = Inl ValueError"
    by (simp add: make_photometry_def pd_concat_def)
  moreover have "\<forall>lc \<in> set light_curves. lc_data lc = []"
    using True make_dfs_eq_Nil [of light_curves] by blast
  ultimately show ?thesis by simp
next
  case False
  have "make_photometry f32 light_curves drop_flagged \<noteq> Inl ValueError"
  proof (cases "apply_rows (make_row f32) (concat (make_dfs light_curves))")
    case (Inl e)
    with apply_rows_make_row [of f32 "concat (make_dfs light_curves)"]
    have "e \<noteq> ValueError" by auto
    with Inl False show ?thesis by (simp add: make_photometry_def pd_concat_def)
  next
    case (Inr rows)
    with False show ?thesis by (simp add: make_photometry_def pd_concat_def)
  qed
  moreover have "\<not> (\<forall>lc \<in> set light_curves. lc_data lc = [])"
    using False make_dfs_eq_Nil [of light_curves] by blast
  ultimately show ?thesis by simp
qed

lemma post_photometry_raises:
  "make_photometry f32 light_curves True = Inl e \<Longrightarrow>
   post_photometry f32 w obj_id light_curves steps = (Raise e, steps)"
  by (simp add: post_photometry_def)

lemma ArchiveHandler_post_no_data:
  assumes "r_light_curves (g (Aggregate catalog ids S)) = []"
    and "Query (Aggregate catalog ids S) \<in> set (snd (ArchiveHandler_post f32 (Some g) w body))"
    and "r_status (g (Aggregate catalog ids S)) \<noteq> Some ''error''"
    and "r_status (g (Aggregate catalog ids S)) \<noteq> None"
  shows "ArchiveHandler_post f32 (Some g) w body =
     (Error No_data_found 400, [Query (Aggregate catalog ids S)])"
  using assms(2,1,3,4) unfolding ArchiveHandler_post_def
  by (auto simp: Let_def snd_with_token split: option.splits sum.splits if_splits)

text \<open>
  A user with access to the public data alone asks for the ingestion of the second
  light curve of the example, whose epochs all belong to program 2: the service
  answers with that light curve and no epoch of it.

  \<^verbatim>\<open>make_photometry\<close> has no check for an empty input and no exception of its own.
  On the empty sequence it raises the \<^verbatim>\<open>ValueError\<close> that \<^verbatim>\<open>pd.concat\<close> raises on
  no frames. It raises the same exception on a sequence that is not empty, the one
  light curve without epochs; and \<^verbatim>\<open>ArchiveHandler.post\<close>, its only caller, has no
  \<^verbatim>\<open>except\<close> clause: in the request above the exception leaves the handler, after
  the source has been posted and the token revoked, where a failure that the handler
  reports is an answer \<open>Error\<close> with its message.
\<close>

theorem make_photometry_empty_input_counterexample:
  "make_photometry id [] True = Inl ValueError \<and>
   make_photometry id [(example_light_curves ! 1) \<lparr> lc_data := [] \<rparr>] True = Inl ValueError \<and>
   post_photometry id example_world ''ZTFJ120000.00+000000.0'' [] [] = (Raise ValueError, []) \<and>
   r_light_curves (example_gloria (Aggregate ''ZTF_sources_20210401'' [102] {1})) =
     [(example_light_curves ! 1) \<lparr> lc_data := [] \<rparr>] \<and>
   fst (ArchiveHandler_post id (Some example_gloria)
          (example_world \<lparr> pw_streams := take 1 example_streams \<rparr>)
          (example_body \<lparr> b_light_curve_ids := Some [102] \<rparr>)) = Raised ValueError \<and>
   snd (ArchiveHandler_post id (Some example_gloria)
          (example_world \<lparr> pw_streams := take 1 example_streams \<rparr>)
          (example_body \<lparr> b_light_curve_ids := Some [102] \<rparr>)) =
     [Query (Aggregate ''ZTF_sources_20210401'' [102] {1}), Create_token 7,
      Step (Post_source \<lparr> ps_id = ''ZTFJ120000.00+000000.0'', ps_ra = Fin 180, ps_dec = Fin 0,
                           ps_group_ids = Some [3], ps_origin = ''Fritz'' \<rparr>),
      Delete_token 7]"
  by code_simp

text \<open>
  C9, as amended. Called on an empty sequence of light curves, \<^verbatim>\<open>make_photometry\<close>
  raises the \<^verbatim>\<open>ValueError\<close> of \<^verbatim>\<open>pd.concat\<close>, whatever \<^verbatim>\<open>drop_flagged\<close> is. It
  raises \<^verbatim>\<open>ValueError\<close> exactly when no light curve of the sequence has an epoch, so
  also on sequences that are not empty. The pipeline of \<^verbatim>\<open>ArchiveHandler.post\<close> does
  not catch an exception of \<^verbatim>\<open>make_photometry\<close>: it ends with that exception.
\<close>

theorem make_photometry_no_data:
  "make_photometry f32 [] drop_flagged = Inl ValueError \<and>
   (make_photometry f32 light_curves drop_flagged = Inl ValueError \<longleftrightarrow>
      (\<forall>lc \<in> set light_curves. lc_data lc = [])) \<and>
   (make_photometry f32 light_curves True = Inl e \<longrightarrow>
      post_photometry f32 w obj_id light_curves steps = (Raise e, steps))"
  using make_photometry_ValueError [of f32 "[]" drop_flagged]
    make_photometry_ValueError [of f32 light_curves drop_flagged]
    post_photometry_raises [of f32 light_curves e w obj_id steps]
  by simp

text \<open>
  The theorem on the light curve without epochs of the request above.
\<close>

theorem make_photometry_no_data_witness:
  "lc_data ((example_light_curves ! 1) \<lparr> lc_data := [] \<rparr>) = [] \<and>
   make_photometry id [(example_light_curves ! 1) \<lparr> lc_data := [] \<rparr>] True = Inl ValueError \<and>
   post_photometry id example_world ''ZTFJ120000.00+000000.0''
     [(example_light_curves ! 1) \<lparr> lc_data := [] \<rparr>] [] = (Raise ValueError, [])"
proof -
  let ?lcs = "[(example_light_curves ! 1) \<lparr> lc_data := [] \<rparr>]"
  have a: "\<forall>lc \<in> set ?lcs. lc_data lc = []" by simp
  note t = make_photometry_no_data [of id True ?lcs ValueError example_world
      "''ZTFJ120000.00+000000.0''" "[]"]
  from t a have b: "make_photometry id ?lcs True = Inl ValueError" by blast
  with t have "post_photometry id example_world ''ZTFJ120000.00+000000.0'' ?lcs [] =
      (Raise ValueError, [])" by blast
  with b show ?thesis by simp
qed

section \<open>The accessible program ids in the two handlers\<close>

lemma light_curves_of_cone_aggregate:
  "Query (Aggregate c ids S) \<in> set (snd (light_curves_of_cone g catalog program_ids ra dec radius units))
   \<Longrightarrow> S = program_ids"
  unfolding light_curves_of_cone_def
  by (auto simp: Let_def split: option.splits if_splits)

lemma ArchiveHandler_get_aggregate:
  "Query (Aggregate c ids S) \<in> set (snd (ArchiveHandler_get float_of_str gloria streams args))
   \<Longrightarrow> program_id_selector streams = Inr S"
  unfolding ArchiveHandler_get_def
  by (auto simp: Let_def split: option.splits sum.splits if_splits position.splits
      dest: light_curves_of_cone_aggregate)

lemma ArchiveHandler_post_aggregate:
  "Query (Aggregate c ids S) \<in> set (snd (ArchiveHandler_post f32 gloria w body))
   \<Longrightarrow> program_id_selector (pw_streams w) = Inr S"
  unfolding ArchiveHandler_post_def
  by (auto simp: Let_def snd_with_token split: option.splits sum.splits if_splits)

text \<open>
  C2. The set of program ids that the loop over the caller's streams derives has the
  public program id 1, and has another id only if a stream of the caller whose name
  contains "ztf", in any mix of cases, declares that id in its selector. The set of
  program ids in the aggregation query of \<^verbatim>\<open>ArchiveHandler.get\<close> and in that of
  \<^verbatim>\<open>ArchiveHandler.post\<close> is this set, derived from the caller's streams.
\<close>

theorem accessible_program_ids:
  "(program_id_selector streams = Inr S \<longrightarrow> accessible streams S) \<and>
   (Query (Aggregate c ids S) \<in> set (snd (ArchiveHandler_get float_of_str gloria streams args))
      \<longrightarrow> accessible streams S) \<and>
   (Query (Aggregate c ids S) \<in> set (snd (ArchiveHandler_post f32 gloria w body))
      \<longrightarrow> accessible (pw_streams w) S)"
  using program_id_selector_accessible ArchiveHandler_get_aggregate ArchiveHandler_post_aggregate
  by blast

text \<open>
  The theorem for the user of the example, whose program ids are 1 and 2, in a request
  to each of the two handlers.
\<close>

theorem accessible_program_ids_witness:
  "program_id_selector example_streams = Inr {1, 2} \<and>
   accessible example_streams {1, 2} \<and>
   Query (Aggregate ''ZTF_sources_20210401'' [101, 102] {1, 2}) \<in>
     set (snd (ArchiveHandler_get example_float_of_str (Some example_gloria) example_streams
            example_args)) \<and>
   Query (Aggregate ''ZTF_sources_20210401'' [101, 102] {1, 2}) \<in>
     set (snd (ArchiveHandler_post id (Some example_gloria) example_world example_body))"
proof -
  have s: "program_id_selector example_streams = Inr {1, 2}" by code_simp
  have g: "Query (Aggregate ''ZTF_sources_20210401'' [101, 102] {1, 2}) \<in>
     set (snd (ArchiveHandler_get example_float_of_str (Some example_gloria) example_streams
            example_args))" by code_simp
  have p: "Query (Aggregate ''ZTF_sources_20210401'' [101, 102] {1, 2}) \<in>
     set (snd (ArchiveHandler_post id (Some example_gloria) example_world example_body))"
    by code_simp
  from accessible_program_ids [of example_streams "{1, 2}"] s
  have "accessible example_streams {1, 2}" by blast
  with s g p show ?thesis by (intro conjI)
qed

section \<open>Validation failures and remote calls\<close>





section \<open>Missing and false position values\<close>

text \<open>
  A request for features whose body has \<^verbatim>\<open>ra\<close>, \<^verbatim>\<open>dec\<close> and \<^verbatim>\<open>radius_units\<close>
  and no \<^verbatim>\<open>radius\<close> succeeds: \<^verbatim>\<open>ScopeFeaturesHandler.post\<close> reads the radius with
  the default 2. And a request to \<^verbatim>\<open>ArchiveHandler.get\<close> that supplies \<^verbatim>\<open>ra\<close>,
  \<^verbatim>\<open>dec\<close> and \<^verbatim>\<open>radius\<close> as empty strings and no \<^verbatim>\<open>radius_units\<close> gets no
  answer at all, since no value of its tuple is true.
\<close>

theorem missing_position_field_counterexample:
  "fst (ScopeFeaturesHandler_post example_float_of_str (Some example_gloria)
          example_scope_world [] example_scope_body) = Success No_data \<and>
   map_of example_scope_body ''radius'' = None \<and>
   fst (ArchiveHandler_get example_float_of_str (Some example_gloria) example_streams
          (example_args \<lparr> arg_ra := Some [], arg_dec := Some [], arg_radius := Some [],
                          arg_radius_units := None \<rparr>)) = Returned_None"
  by code_simp

text \<open>
  C7, as amended. In \<^verbatim>\<open>CrossMatchHandler.get\<close> and \<^verbatim>\<open>ArchiveHandler.get\<close>, a
  request in which a position value is missing and some position value is true (not
  missing, not an empty string) is answered, once the handler reaches its position
  check, with the error "Missing required parameter:" and the name of the first
  missing value in the order ra, dec, radius, radius_units. In
  \<^verbatim>\<open>ScopeFeaturesHandler.post\<close> the same holds of the four values that the handler
  reads from the body, where a missing \<^verbatim>\<open>radius\<close> is 2, a missing
  \<^verbatim>\<open>radius_units\<close> is "arcsec", and a value is missing when the body gives null for
  it.
\<close>

theorem missing_position_field:
  "(first_missing (query_argument (arg_ra args)) (query_argument (arg_dec args))
      (query_argument (arg_radius args)) (query_argument (arg_radius_units args)) = Some n \<and>
    py_any [query_argument (arg_ra args), query_argument (arg_dec args),
            query_argument (arg_radius args), query_argument (arg_radius_units args)] \<longrightarrow>
    (gloria = Some g \<and> r_names (g Info) = Some names \<and> crossmatch_catalogs names \<noteq> [] \<longrightarrow>
       CrossMatchHandler_get float_of_str gloria args =
         (Error (Missing_required_parameter n) 400, [Query Info])) \<and>
    (gloria = Some g \<and> r_names (g Info) = Some names \<and> program_id_selector streams = Inr S \<and>
     arg_catalog args = Some c \<and> c \<in> set (light_curve_catalogs names) \<longrightarrow>
       ArchiveHandler_get float_of_str gloria streams args =
         (Error (Missing_required_parameter n) 400, [Query Info]))) \<and>
   (gloria = Some g \<and> r_names (g Info) = Some names \<and>
    map_of body ''id'' = Some obj_id \<and> map_of body ''ra'' = Some ra \<and>
    map_of body ''dec'' = Some dec \<and>
    dict_get body ''catalog'' (JStr ''ZTF_source_features_DR5'') \<in>
      set (map JStr (feature_catalogs names)) \<and>
    first_missing ra dec (dict_get body ''radius'' (JNum (Fin 2)))
      (dict_get body ''radius_units'' (JStr ''arcsec'')) = Some n \<and>
    py_any [ra, dec, dict_get body ''radius'' (JNum (Fin 2)),
            dict_get body ''radius_units'' (JStr ''arcsec'')] \<longrightarrow>
      ScopeFeaturesHandler_post float_of_str gloria sw store body =
        (Error (Missing_required_parameter n) 400, [Query Info], store))"
proof (intro conjI impI)
  assume a: "first_missing (query_argument (arg_ra args)) (query_argument (arg_dec args))
      (query_argument (arg_radius args)) (query_argument (arg_radius_units args)) = Some n \<and>
    py_any [query_argument (arg_ra args), query_argument (arg_dec args),
            query_argument (arg_radius args), query_argument (arg_radius_units args)]"
  then have cp: "\<And>check_ranges. check_position float_of_str check_ranges
      (query_argument (arg_ra args)) (query_argument (arg_dec args))
      (query_argument (arg_radius args)) (query_argument (arg_radius_units args)) =
      Answered (Error (Missing_required_parameter n) 400)"
    using check_position_missing by blast
  {
    assume "gloria = Some g \<and> r_names (g Info) = Some names \<and> crossmatch_catalogs names \<noteq> []"
    then show "CrossMatchHandler_get float_of_str gloria args =
         (Error (Missing_required_parameter n) 400, [Query Info])"
      using CrossMatchHandler_get_position [of gloria g names float_of_str args] cp by simp
  }
  {
    assume "gloria = Some g \<and> r_names (g Info) = Some names \<and>
      program_id_selector streams = Inr S \<and>
      arg_catalog args = Some c \<and> c \<in> set (light_curve_catalogs names)"
    then show "ArchiveHandler_get float_of_str gloria streams args =
         (Error (Missing_required_parameter n) 400, [Query Info])"
      using ArchiveHandler_get_position [of gloria g names streams S args c float_of_str] cp
      by simp
  }
next
  assume a: "gloria = Some g \<and> r_names (g Info) = Some names \<and>
    map_of body ''id'' = Some obj_id \<and> map_of body ''ra'' = Some ra \<and>
    map_of body ''dec'' = Some dec \<and>
    dict_get body ''catalog'' (JStr ''ZTF_source_features_DR5'') \<in>
      set (map JStr (feature_catalogs names)) \<and>
    first_missing ra dec (dict_get body ''radius'' (JNum (Fin 2)))
      (dict_get body ''radius_units'' (JStr ''arcsec'')) = Some n \<and>
    py_any [ra, dec, dict_get body ''radius'' (JNum (Fin 2)),
            dict_get body ''radius_units'' (JStr ''arcsec'')]"
  then have cp: "check_position float_of_str False ra dec (dict_get body ''radius'' (JNum (Fin 2)))
      (dict_get body ''radius_units'' (JStr ''arcsec'')) =
      Answered (Error (Missing_required_parameter n) 400)"
    using check_position_missing by blast
  from a show "ScopeFeaturesHandler_post float_of_str gloria sw store body =
        (Error (Missing_required_parameter n) 400, [Query Info], store)"
    using ScopeFeaturesHandler_post_position [of gloria g names body obj_id ra dec float_of_str
        sw store] cp
    by simp
qed

text \<open>
  The theorem on a request without \<^verbatim>\<open>dec\<close>, on one without \<^verbatim>\<open>radius_units\<close>, and
  on a body whose \<^verbatim>\<open>radius\<close> is null.
\<close>

theorem missing_position_field_witness:
  "CrossMatchHandler_get example_float_of_str (Some example_gloria)
     (example_args \<lparr> arg_dec := None \<rparr>) =
     (Error (Missing_required_parameter ''dec'') 400, [Query Info]) \<and>
   ArchiveHandler_get example_float_of_str (Some example_gloria) example_streams
     (example_args \<lparr> arg_radius_units := None \<rparr>) =
     (Error (Missing_required_parameter ''radius_units'') 400, [Query Info]) \<and>
   ScopeFeaturesHandler_post example_float_of_str (Some example_gloria) example_scope_world []
     ((''radius'', JNull) # example_scope_body) =
     (Error (Missing_required_parameter ''radius'') 400, [Query Info], [])"
proof -
  let ?a1 = "example_args \<lparr> arg_dec := None \<rparr>"
  let ?a2 = "example_args \<lparr> arg_radius_units := None \<rparr>"
  let ?body = "(''radius'', JNull) # example_scope_body"
  have g: "r_names (example_gloria Info) = Some example_names \<and>
      crossmatch_catalogs example_names \<noteq> []"
    by code_simp
  have h1: "first_missing (query_argument (arg_ra ?a1)) (query_argument (arg_dec ?a1))
      (query_argument (arg_radius ?a1)) (query_argument (arg_radius_units ?a1)) = Some ''dec'' \<and>
    py_any [query_argument (arg_ra ?a1), query_argument (arg_dec ?a1),
            query_argument (arg_radius ?a1), query_argument (arg_radius_units ?a1)]"
    by code_simp
  have g2: "r_names (example_gloria Info) = Some example_names \<and>
      program_id_selector example_streams = Inr {1, 2} \<and>
      arg_catalog ?a2 = Some ''ZTF_sources_20210401'' \<and>
      ''ZTF_sources_20210401'' \<in> set (light_curve_catalogs example_names)"
    by code_simp
  have h2: "first_missing (query_argument (arg_ra ?a2)) (query_argument (arg_dec ?a2))
      (query_argument (arg_radius ?a2)) (query_argument (arg_radius_units ?a2)) =
        Some ''radius_units'' \<and>
    py_any [query_argument (arg_ra ?a2), query_argument (arg_dec ?a2),
            query_argument (arg_radius ?a2), query_argument (arg_radius_units ?a2)]"
    by code_simp
  have h3: "r_names (example_gloria Info) = Some example_names \<and>
    map_of ?body ''id'' = Some (JStr ''ZTF21aaaaaaa'') \<and> map_of ?body ''ra'' = Some (JNum (Fin 180)) \<and>
    map_of ?body ''dec'' = Some (JNum (Fin 1)) \<and>
    dict_get ?body ''catalog'' (JStr ''ZTF_source_features_DR5'') \<in>
      set (map JStr (feature_catalogs example_names)) \<and>
    first_missing (JNum (Fin 180)) (JNum (Fin 1)) (dict_get ?body ''radius'' (JNum (Fin 2)))
      (dict_get ?body ''radius_units'' (JStr ''arcsec'')) = Some ''radius'' \<and>
    py_any [JNum (Fin 180), JNum (Fin 1), dict_get ?body ''radius'' (JNum (Fin 2)),
            dict_get ?body ''radius_units'' (JStr ''arcsec'')]"
    by code_simp
  from missing_position_field [where args = ?a1 and n = "''dec''"
      and gloria = "Some example_gloria" and g = example_gloria and names = example_names
      and float_of_str = example_float_of_str] g h1
  have 1: "CrossMatchHandler_get example_float_of_str (Some example_gloria) ?a1 =
     (Error (Missing_required_parameter ''dec'') 400, [Query Info])"
    by blast
  from missing_position_field [where args = ?a2 and n = "''radius_units''"
      and gloria = "Some example_gloria" and g = example_gloria and names = example_names
      and float_of_str = example_float_of_str and streams = example_streams
      and S = "{1, 2}" and c = "''ZTF_sources_20210401''"]
    g2 h2
  have 2: "ArchiveHandler_get example_float_of_str (Some example_gloria) example_streams ?a2 =
     (Error (Missing_required_parameter ''radius_units'') 400, [Query Info])"
    by blast
  from missing_position_field [where n = "''radius''"
      and gloria = "Some example_gloria" and g = example_gloria and names = example_names
      and float_of_str = example_float_of_str and body = ?body
      and obj_id = "JStr ''ZTF21aaaaaaa''" and ra = "JNum (Fin 180)" and dec = "JNum (Fin 1)"
      and sw = example_scope_world and store = "[]"] h3
  have 3: "ScopeFeaturesHandler_post example_float_of_str (Some example_gloria)
      example_scope_world [] ?body =
     (Error (Missing_required_parameter ''radius'') 400, [Query Info], [])"
    by blast
  from 1 2 3 show ?thesis by (intro conjI)
qed

text \<open>
  C10. There are position inputs whose four values are all present and of which one
  is false: an empty string for \<^verbatim>\<open>ra\<close> in the query arguments of
  \<^verbatim>\<open>ArchiveHandler.get\<close> and \<^verbatim>\<open>CrossMatchHandler.get\<close>, and the JSON number 0 for
  \<^verbatim>\<open>dec\<close> in the body of \<^verbatim>\<open>ScopeFeaturesHandler.post\<close>. For them the position
  check takes neither the branch of the missing values nor that of the complete tuple:
  the handler sends no query after that for the catalog names, and returns \<^verbatim>\<open>None\<close>
  without having called \<^verbatim>\<open>self.success\<close> or \<^verbatim>\<open>self.error\<close>.
\<close>

theorem falsy_position_no_response:
  "ArchiveHandler_get example_float_of_str (Some example_gloria) example_streams
     (example_args \<lparr> arg_ra := Some [] \<rparr>) = (Returned_None, [Query Info]) \<and>
   CrossMatchHandler_get example_float_of_str (Some example_gloria)
     (example_args \<lparr> arg_ra := Some [] \<rparr>) = (Returned_None, [Query Info]) \<and>
   ScopeFeaturesHandler_post example_float_of_str (Some example_gloria) example_scope_world []
     [(''id'', JStr ''ZTF21aaaaaaa''), (''ra'', JNum (Fin 180)), (''dec'', JNum (Fin 0)),
      (''radius'', JNum (Fin 2)), (''radius_units'', JStr ''arcsec'')] =
     (Returned_None, [Query Info], []) \<and>
   check_position example_float_of_str False (JNum (Fin 180)) (JNum (Fin 0)) (JNum (Fin 2)) (JStr ''arcsec'') =
     No_search \<and>
   missing_parameter (JNum (Fin 180)) (JNum (Fin 0)) (JNum (Fin 2)) (JStr ''arcsec'') = None \<and>
   JNull \<notin> set [JNum (Fin 180), JNum (Fin 0), JNum (Fin 2), JStr ''arcsec''] \<and>
   \<not> truthy (JNum (Fin 0)) \<and> \<not> truthy (JStr [])"
  by code_simp

section \<open>Posting an annotation twice\<close>










end
